(* ===== verification/JS_Prelude.thy ===== *)
theory JS_Prelude
  imports Complex_Main "HOL-Library.Sublist"
begin

text \<open>
  Shared vocabulary of the development: the JavaScript values the agent's
  system probe computes with, and the exception results of Node's blocking
  calls.

  \<^item> \<open>jsnum\<close> models a JavaScript number: a finite value, \<open>Infinity\<close>,
    \<open>-Infinity\<close> or \<open>NaN\<close>. Finite values are exact reals: the probe only adds,
    subtracts and divides integers far below \<open>2^53\<close>, so the rounding of IEEE
    doubles is abstracted away, while the special values, which the code
    produces on a zero divisor or an unparsable field, are kept exactly
    (signed zero is identified with zero).
  \<^item> \<open>'a js_result\<close> is \<open>js_error + 'a\<close>: \<open>Inl\<close> is an exception that escapes
    (a failed \<open>fs.readFileSync\<close> or \<open>fs.readdirSync\<close>, a \<open>TypeError\<close>),
    \<open>Inr\<close> a normal return. \<open>js_bind\<close> sequences two such computations.
  \<^item> \<open>arr_get xs i\<close> is JavaScript's \<open>xs[i]\<close>: \<open>None\<close> stands for
    \<open>undefined\<close> when \<open>i\<close> is out of range.
\<close>

named_theorems js_simps "evaluation rules of the JavaScript builtins of the model"

section \<open>JavaScript numbers\<close>

datatype jsnum = Fin real | PInf | NInf | NaN

definition inf_of_sign :: "bool \<Rightarrow> jsnum" where
  "inf_of_sign pos = (if pos then PInf else NInf)"

fun js_positive :: "jsnum \<Rightarrow> bool" where
  "js_positive (Fin a) = (0 < a)"
| "js_positive PInf = True"
| "js_positive NInf = False"
| "js_positive NaN = False"

fun js_finite :: "jsnum \<Rightarrow> bool" where
  "js_finite (Fin a) = True"
| "js_finite _ = False"

text \<open>IEEE addition: \<open>NaN\<close> is absorbing, opposite infinities give \<open>NaN\<close>.\<close>

fun js_add :: "jsnum \<Rightarrow> jsnum \<Rightarrow> jsnum" where
  "js_add (Fin a) (Fin b) = Fin (a + b)"
| "js_add NaN y = NaN"
| "js_add x NaN = NaN"
| "js_add PInf NInf = NaN"
| "js_add NInf PInf = NaN"
| "js_add PInf y = PInf"
| "js_add NInf y = NInf"
| "js_add x PInf = PInf"
| "js_add x NInf = NInf"

fun js_neg :: "jsnum \<Rightarrow> jsnum" where
  "js_neg (Fin a) = Fin (- a)"
| "js_neg PInf = NInf"
| "js_neg NInf = PInf"
| "js_neg NaN = NaN"

definition js_sub :: "jsnum \<Rightarrow> jsnum \<Rightarrow> jsnum" where
  "js_sub x y = js_add x (js_neg y)"

fun js_mul :: "jsnum \<Rightarrow> jsnum \<Rightarrow> jsnum" where
  "js_mul (Fin a) (Fin b) = Fin (a * b)"
| "js_mul NaN y = NaN"
| "js_mul x NaN = NaN"
| "js_mul (Fin a) y = (if a = 0 then NaN else inf_of_sign ((0 < a) = js_positive y))"
| "js_mul x (Fin b) = (if b = 0 then NaN else inf_of_sign (js_positive x = (0 < b)))"
| "js_mul x y = inf_of_sign (js_positive x = js_positive y)"

text \<open>
  IEEE division. A zero divisor gives an infinity of the dividend's sign, and
  \<open>0/0\<close> gives \<open>NaN\<close>; HOL's own \<open>x / 0 = 0\<close> is never used on a \<open>jsnum\<close>.
\<close>

fun js_div :: "jsnum \<Rightarrow> jsnum \<Rightarrow> jsnum" where
  "js_div (Fin a) (Fin b) =
     (if b = 0 then (if a = 0 then NaN else inf_of_sign (0 < a)) else Fin (a / b))"
| "js_div NaN y = NaN"
| "js_div x NaN = NaN"
| "js_div (Fin a) y = Fin 0"
| "js_div x (Fin b) = inf_of_sign (js_positive x = (0 \<le> b))"
| "js_div x y = NaN"

text \<open>\<open>x <= y\<close> and \<open>x === y\<close> on numbers: every comparison with \<open>NaN\<close> is false.\<close>

fun js_le :: "jsnum \<Rightarrow> jsnum \<Rightarrow> bool" where
  "js_le (Fin a) (Fin b) = (a \<le> b)"
| "js_le NaN y = False"
| "js_le x NaN = False"
| "js_le NInf y = True"
| "js_le x PInf = True"
| "js_le x y = False"

fun js_strict_eq :: "jsnum \<Rightarrow> jsnum \<Rightarrow> bool" where
  "js_strict_eq NaN y = False"
| "js_strict_eq x y = (x = y)"

lemma js_sub_Fin [simp, js_simps]: "js_sub (Fin a) (Fin b) = Fin (a - b)"
  by (simp add: js_sub_def)

lemma js_sub_NaN [simp, js_simps]: "js_sub NaN y = NaN" "js_sub x NaN = NaN"
  by (simp_all add: js_sub_def) (cases x; simp)

lemma js_add_NaN_right [simp, js_simps]: "js_add x NaN = NaN"
  by (cases x) simp_all

lemma js_mul_NaN_right [simp, js_simps]: "js_mul x NaN = NaN"
  by (cases x) simp_all

lemma js_div_NaN_right [simp, js_simps]: "js_div x NaN = NaN"
  by (cases x) simp_all

lemma js_add_finite_iff [simp]:
  "js_finite (js_add x y) \<longleftrightarrow> js_finite x \<and> js_finite y"
  by (cases x; cases y) simp_all

lemma js_add_eq_Fin_iff:
  "js_add x y = Fin r \<longleftrightarrow> (\<exists>a b. x = Fin a \<and> y = Fin b \<and> r = a + b)"
  by (cases x; cases y) auto

lemma js_div_Fin_nonzero [simp, js_simps]:
  "b \<noteq> 0 \<Longrightarrow> js_div (Fin a) (Fin b) = Fin (a / b)"
  by simp

lemma js_div_zero_zero [simp, js_simps]: "js_div (Fin 0) (Fin 0) = NaN"
  by simp

lemma js_div_zero_not_finite: "\<not> js_finite (js_div x (Fin 0))"
  by (cases x) (simp_all add: inf_of_sign_def)

lemma inf_of_sign_not_Fin [simp]: "inf_of_sign p \<noteq> Fin r" "\<not> js_finite (inf_of_sign p)"
  by (simp_all add: inf_of_sign_def)

section \<open>Exceptions as values\<close>

datatype js_error =
    ENOENT string   \<comment> \<open>\<open>fs.readFileSync\<close> / \<open>fs.readdirSync\<close> on a missing path\<close>
  | EACCES string   \<comment> \<open>\<open>fs.readFileSync\<close> on a path that exists but cannot be read\<close>
  | TypeError string  \<comment> \<open>a property read on \<open>undefined\<close>\<close>

type_synonym 'a js_result = "js_error + 'a"

definition js_bind :: "'a js_result \<Rightarrow> ('a \<Rightarrow> 'b js_result) \<Rightarrow> 'b js_result" where
  "js_bind r f = (case r of Inl e \<Rightarrow> Inl e | Inr a \<Rightarrow> f a)"

lemma js_bind_simps [simp, js_simps]:
  "js_bind (Inl e) f = Inl e"
  "js_bind (Inr a) f = f a"
  by (simp_all add: js_bind_def)

lemma js_bind_eq_Inr:
  "js_bind r f = Inr b \<longleftrightarrow> (\<exists>a. r = Inr a \<and> f a = Inr b)"
  by (cases r) simp_all

section \<open>Lists\<close>

lemma list_all_not_mem: "list_all P xs \<Longrightarrow> \<not> P x \<Longrightarrow> x \<notin> set xs"
  by (auto simp: list_all_iff)

section \<open>Arrays\<close>

text \<open>JavaScript's \<open>xs[i]\<close>, with \<open>undefined\<close> as \<open>None\<close> beyond the end.\<close>

fun arr_get :: "'a list \<Rightarrow> nat \<Rightarrow> 'a option" where
  "arr_get [] i = None"
| "arr_get (x # xs) 0 = Some x"
| "arr_get (x # xs) (Suc i) = arr_get xs i"

lemma arr_get_conv_nth:
  "arr_get xs i = (if i < length xs then Some (xs ! i) else None)"
  by (induction xs i rule: arr_get.induct) auto

lemma arr_get_append_left [simp]:
  "i < length xs \<Longrightarrow> arr_get (xs @ ys) i = Some (xs ! i)"
  by (simp add: arr_get_conv_nth nth_append)

lemma arr_get_append_right [simp]:
  "length xs \<le> i \<Longrightarrow> arr_get (xs @ ys) i = arr_get ys (i - length xs)"
  by (auto simp: arr_get_conv_nth nth_append)

end
