(* ===== verification/JS_Strings.thy ===== *)
theory JS_Strings
  imports JS_Prelude
begin

text \<open>
  The string builtins the probe calls, as executable functions on
  \<open>string = char list\<close>: \<open>String.prototype.trim\<close>, \<open>split\<close> on a one-character
  separator, \<open>indexOf\<close>, \<open>parseInt(s, 10)\<close>; and, for stating properties, the
  kernel's decimal printing of counters (\<open>dec_string\<close>) and \<open>join_with\<close>
  (\<open>Array.prototype.join\<close>). The lemmas are the round trips
  (\<open>split\<close>/\<open>join\<close>, print/\<open>parseInt\<close>) and the characterisation of
  \<open>indexOf\<close> by the library's \<open>sublist\<close> and \<open>prefix\<close>. Whitespace is the ASCII
  part of ECMAScript's WhiteSpace and LineTerminator sets.
\<close>

section \<open>Characters\<close>

definition is_js_ws :: "char \<Rightarrow> bool" where
  "is_js_ws c \<longleftrightarrow> c \<in> set [CHR '' '', CHR 0x09, CHR 0x0A, CHR 0x0B, CHR 0x0C, CHR 0x0D]"

definition is_digit :: "char \<Rightarrow> bool" where
  "is_digit c \<longleftrightarrow> (48::nat) \<le> of_char c \<and> of_char c \<le> (57::nat)"

definition digit_val :: "char \<Rightarrow> nat" where
  "digit_val c = of_char c - 48"

definition digit_char :: "nat \<Rightarrow> char" where
  "digit_char d = char_of (48 + d)"

lemma digit_char_props [simp]:
  assumes "d < 10"
  shows "is_digit (digit_char d)" "digit_val (digit_char d) = d" "\<not> is_js_ws (digit_char d)"
proof -
  have oc: "of_char (digit_char d) = 48 + d"
    using assms by (simp add: digit_char_def)
  show "is_digit (digit_char d)" "digit_val (digit_char d) = d"
    using assms oc by (simp_all add: is_digit_def digit_val_def)
  have "of_char (digit_char d) \<in> {48..<58::nat}" using assms oc by simp
  then show "\<not> is_js_ws (digit_char d)"
    by (auto simp: is_js_ws_def)
qed

lemma digit_not_ws: "is_digit c \<Longrightarrow> \<not> is_js_ws c"
  by (auto simp: is_digit_def is_js_ws_def)

section \<open>\<open>trim\<close>\<close>

definition js_trim :: "string \<Rightarrow> string" where
  "js_trim s = rev (dropWhile is_js_ws (rev (dropWhile is_js_ws s)))"

lemma set_js_trim: "x \<in> set (js_trim s) \<Longrightarrow> x \<in> set s"
  unfolding js_trim_def set_rev by (metis set_dropWhileD set_rev)

lemma js_trim_id:
  assumes "s \<noteq> []" "\<not> is_js_ws (hd s)" "\<not> is_js_ws (last s)"
  shows "js_trim s = s"
proof -
  have "dropWhile is_js_ws s = s"
    using assms by (cases s) simp_all
  moreover have "dropWhile is_js_ws (rev s) = rev s"
    using assms by (cases "rev s") (simp_all add: hd_rev[symmetric])
  ultimately show ?thesis by (simp add: js_trim_def)
qed

section \<open>\<open>split\<close> and \<open>join\<close> on one separator character\<close>

fun split_on :: "char \<Rightarrow> string \<Rightarrow> string list" where
  "split_on c [] = [[]]"
| "split_on c (x # xs) =
     (let r = split_on c xs in if x = c then [] # r else (x # hd r) # tl r)"

fun join_with :: "char \<Rightarrow> string list \<Rightarrow> string" where
  "join_with c [] = []"
| "join_with c [w] = w"
| "join_with c (w # ws) = w @ c # join_with c ws"

lemma split_on_not_Nil [simp]: "split_on c s \<noteq> []"
  by (induction s) (auto simp: Let_def)

lemma split_on_no_sep: "c \<notin> set s \<Longrightarrow> split_on c s = [s]"
  by (induction s) (auto simp: Let_def)

lemma split_on_append_sep:
  "c \<notin> set l \<Longrightarrow> split_on c (l @ c # r) = l # split_on c r"
  by (induction l) (auto simp: Let_def)

lemma split_on_append_no_sep:
  "c \<notin> set l \<Longrightarrow> split_on c (l @ r) = (l @ hd (split_on c r)) # tl (split_on c r)"
  by (induction l) (auto simp: Let_def)

lemma join_with_split_on: "join_with c (split_on c s) = s"
proof (induction s)
  case Nil
  then show ?case by simp
next
  case (Cons x xs)
  obtain w ws where r: "split_on c xs = w # ws"
    by (cases "split_on c xs") auto
  from Cons.IH r have "join_with c (w # ws) = xs" by simp
  with r show ?case by (cases ws) (auto simp: Let_def)
qed

lemma split_on_join_with:
  "ws \<noteq> [] \<Longrightarrow> \<forall>w \<in> set ws. c \<notin> set w \<Longrightarrow> split_on c (join_with c ws) = ws"
proof (induction c ws rule: join_with.induct)
  case (3 c w v vs)
  then show ?case by (simp add: split_on_append_sep)
qed (simp_all add: split_on_no_sep)

lemma join_with_not_Nil: "ws \<noteq> [] \<Longrightarrow> last ws \<noteq> [] \<Longrightarrow> join_with c ws \<noteq> []"
  by (induction c ws rule: join_with.induct) auto

lemma last_join_with:
  "ws \<noteq> [] \<Longrightarrow> last ws \<noteq> [] \<Longrightarrow> last (join_with c ws) = last (last ws)"
proof (induction c ws rule: join_with.induct)
  case (3 c w v vs)
  then have "join_with c (v # vs) \<noteq> []" by (intro join_with_not_Nil) auto
  with 3 show ?case by (simp add: last_append)
qed simp_all

lemma hd_join_with:
  "ws \<noteq> [] \<Longrightarrow> hd ws \<noteq> [] \<Longrightarrow> hd (join_with c ws) = hd (hd ws)"
  by (induction c ws rule: join_with.induct) auto

lemma set_join_with: "set (join_with c ws) \<subseteq> insert c (\<Union>w \<in> set ws. set w)"
  by (induction c ws rule: join_with.induct) auto

lemma join_with_split_token:
  "join_with c (xs @ (a @ c # b) # ys) = join_with c (xs @ a # b # ys)"
proof (induction xs)
  case Nil
  then show ?case by (cases ys) simp_all
next
  case (Cons x xs)
  then show ?case by (cases xs) simp_all
qed


text \<open>The first line of a trimmed text, when it starts and ends with a
  visible character.\<close>

lemma dropWhile_rev_keep:
  "l \<noteq> [] \<Longrightarrow> \<not> P (last l) \<Longrightarrow> dropWhile P (rev l) = rev l"
  by (cases "rev l") (auto simp: hd_rev[symmetric])

lemma js_trim_first_line:
  assumes l: "l \<noteq> []" "\<not> is_js_ws (hd l)" "\<not> is_js_ws (last l)"
    and c: "c \<notin> set l" "is_js_ws c"
    and tl_ok: "r0 = [] \<or> hd r0 = c"
  shows "\<exists>ls. split_on c (js_trim (l @ r0)) = l # ls"
proof -
  have front: "dropWhile is_js_ws (l @ r0) = l @ r0"
    using l(1,2) by (cases l) simp_all
  have keep_end: "dropWhile is_js_ws (rev l) = rev l"
    using l(1,3) by (rule dropWhile_rev_keep)
  obtain t where t: "js_trim (l @ r0) = l @ t" and tc: "t = [] \<or> hd t = c"
  proof (cases r0)
    case Nil
    then show ?thesis using that front keep_end by (simp add: js_trim_def)
  next
    case (Cons x r)
    with tl_ok have x: "x = c" by simp
    show ?thesis
    proof (cases "\<forall>y \<in> set r. is_js_ws y")
      case True
      then have "js_trim (l @ r0) = l"
        using front keep_end Cons x c(2) by (simp add: js_trim_def dropWhile_append)
      then show ?thesis using that [of "[]"] by simp
    next
      case False
      then have "js_trim (l @ r0) = l @ c # rev (dropWhile is_js_ws (rev r))"
        using front Cons x False by (auto simp: js_trim_def dropWhile_append)
      then show ?thesis using that by simp
    qed
  qed
  show ?thesis
  proof (cases t)
    case Nil
    with t c(1) show ?thesis by (simp add: split_on_no_sep)
  next
    case (Cons y u)
    with tc have "y = c" by simp
    with t Cons c(1) show ?thesis by (simp add: split_on_append_sep)
  qed
qed

section \<open>\<open>indexOf\<close>\<close>

fun starts_with :: "string \<Rightarrow> string \<Rightarrow> bool" where
  "starts_with s [] = True"
| "starts_with [] (y # ys) = False"
| "starts_with (x # xs) (y # ys) = (x = y \<and> starts_with xs ys)"

fun index_from :: "string \<Rightarrow> string \<Rightarrow> nat \<Rightarrow> int" where
  "index_from [] t i = (if t = [] then int i else -1)"
| "index_from (x # xs) t i =
     (if starts_with (x # xs) t then int i else index_from xs t (Suc i))"

text \<open>\<open>s.indexOf(t)\<close>: the first position where \<open>t\<close> occurs in \<open>s\<close>, else \<open>-1\<close>.\<close>

definition js_indexOf :: "string \<Rightarrow> string \<Rightarrow> int" where
  "js_indexOf s t = index_from s t 0"

lemma starts_with_iff_prefix: "starts_with s t \<longleftrightarrow> prefix t s"
  by (induction s t rule: starts_with.induct) auto

lemma index_from_range:
  "index_from s t i = -1 \<or> int i \<le> index_from s t i"
proof (induction s t i rule: index_from.induct)
  case (2 x xs t i)
  then show ?case by (cases "starts_with (x # xs) t") auto
qed simp

lemma index_from_nonneg_iff: "0 \<le> index_from s t i \<longleftrightarrow> sublist t s"
  by (induction s t i rule: index_from.induct)
     (auto simp: starts_with_iff_prefix sublist_Cons_right)

lemma index_from_start_iff: "index_from s t i = int i \<longleftrightarrow> prefix t s"
proof (cases s)
  case Nil
  then show ?thesis by simp
next
  case (Cons x xs)
  have "index_from xs t (Suc i) \<noteq> int i"
    using index_from_range [of xs t "Suc i"] by auto
  with Cons show ?thesis by (auto simp: starts_with_iff_prefix)
qed

lemma js_indexOf_nonneg_iff [js_simps]: "0 \<le> js_indexOf s t \<longleftrightarrow> sublist t s"
  by (simp add: js_indexOf_def index_from_nonneg_iff)

lemma js_indexOf_zero_iff [js_simps]: "js_indexOf s t = 0 \<longleftrightarrow> prefix t s"
  using index_from_start_iff [of s t 0] by (simp add: js_indexOf_def)

section \<open>\<open>parseInt(s, 10)\<close>\<close>

text \<open>
  ECMAScript \<open>parseInt\<close> with radix 10: skip leading whitespace, read an
  optional sign, then the longest run of decimal digits; no digit at all is
  \<open>NaN\<close>. \<open>parseInt(undefined)\<close> parses the string \<open>"undefined"\<close>.
\<close>

definition digits_value :: "string \<Rightarrow> nat" where
  "digits_value ds = foldl (\<lambda>n d. 10 * n + digit_val d) 0 ds"

fun sign_prefix :: "string \<Rightarrow> real \<times> string" where
  "sign_prefix [] = (1, [])"
| "sign_prefix (c # r) =
     (if c = CHR ''-'' then (-1, r) else if c = CHR ''+'' then (1, r) else (1, c # r))"

definition js_parseInt :: "string \<Rightarrow> jsnum" where
  "js_parseInt s =
     (let (sg, rest) = sign_prefix (dropWhile is_js_ws s);
          ds = takeWhile is_digit rest
      in if ds = [] then NaN else Fin (sg * real (digits_value ds)))"

definition js_parseInt_opt :: "string option \<Rightarrow> jsnum" where
  "js_parseInt_opt v = (case v of None \<Rightarrow> js_parseInt ''undefined'' | Some s \<Rightarrow> js_parseInt s)"

lemma js_parseInt_undefined [simp, js_simps]: "js_parseInt_opt None = NaN"
  by (simp add: js_parseInt_opt_def js_parseInt_def is_js_ws_def is_digit_def)

lemma js_parseInt_opt_Some [simp, js_simps]: "js_parseInt_opt (Some s) = js_parseInt s"
  by (simp add: js_parseInt_opt_def)

section \<open>Decimal printing of counters\<close>

text \<open>How the kernel prints a counter in \<open>/proc\<close> files (and \<open>String(n)\<close>).\<close>

fun dec_string :: "nat \<Rightarrow> string" where
  "dec_string n =
     (if n < 10 then [digit_char n] else dec_string (n div 10) @ [digit_char (n mod 10)])"

declare dec_string.simps [simp del]

lemma digit_char_eval:
  "digit_char 0 = CHR ''0''" "digit_char 1 = CHR ''1''" "digit_char (Suc 0) = CHR ''1''" "digit_char 2 = CHR ''2''"
  "digit_char 3 = CHR ''3''" "digit_char 4 = CHR ''4''" "digit_char 5 = CHR ''5''"
  "digit_char 6 = CHR ''6''" "digit_char 7 = CHR ''7''" "digit_char 8 = CHR ''8''"
  "digit_char 9 = CHR ''9''"
  by (simp_all add: digit_char_def char_of_def bit_0)

lemmas dec_string_eval = dec_string.simps digit_char_eval

lemma digits_value_snoc:
  "digits_value (xs @ [c]) = 10 * digits_value xs + digit_val c"
  by (simp add: digits_value_def)

lemma dec_string_props:
  "dec_string n \<noteq> [] \<and> (\<forall>c \<in> set (dec_string n). is_digit c) \<and>
   digits_value (dec_string n) = n"
proof (induction n rule: dec_string.induct)
  case (1 n)
  show ?case
  proof (cases "n < 10")
    case True
    then show ?thesis
      by (simp add: dec_string.simps [of n] digits_value_def)
  next
    case False
    then have "n div 10 * 10 + n mod 10 = n" by simp
    with False "1.IH" show ?thesis
      by (simp add: dec_string.simps [of n] digits_value_snoc)
  qed
qed

lemma dec_string_not_Nil [simp]: "dec_string n \<noteq> []"
  and dec_string_digits: "c \<in> set (dec_string n) \<Longrightarrow> is_digit c"
  and digits_value_dec_string [simp]: "digits_value (dec_string n) = n"
  using dec_string_props [of n] by blast+

lemma dec_string_butlast: "dec_string m = butlast (dec_string m) @ [digit_char (m mod 10)]"
  by (cases "m < 10") (simp_all add: dec_string.simps [of m])

lemma last_dec_string: "last (dec_string m) = digit_char (m mod 10)"
  by (subst dec_string_butlast) simp

lemma dec_string_no_ws: "c \<in> set (dec_string n) \<Longrightarrow> \<not> is_js_ws c"
  by (blast dest: dec_string_digits digit_not_ws)

lemma dec_string_hd: "\<not> is_js_ws (hd (dec_string n))" "hd (dec_string n) \<noteq> CHR ''-''"
    "hd (dec_string n) \<noteq> CHR ''+''"
proof -
  have d: "is_digit (hd (dec_string n))"
    using dec_string_digits hd_in_set [OF dec_string_not_Nil] by blast
  then show "\<not> is_js_ws (hd (dec_string n))" by (rule digit_not_ws)
  show "hd (dec_string n) \<noteq> CHR ''-''" "hd (dec_string n) \<noteq> CHR ''+''"
    using d by (auto simp: is_digit_def)
qed

lemma dec_string_last: "\<not> is_js_ws (last (dec_string n))"
  using dec_string_no_ws last_in_set [OF dec_string_not_Nil] by blast

text \<open>
  The parse/print round trip, in the form the probe meets it: a printed
  counter, possibly after blanks and followed by text that does not start
  with a digit (\<open>"  1024 kB"\<close>, a next field), parses back to its value.
\<close>

lemma js_parseInt_dec_string:
  assumes ws: "\<forall>c \<in> set w. is_js_ws c"
    and rest: "rest = [] \<or> \<not> is_digit (hd rest)"
  shows "js_parseInt (w @ dec_string n @ rest) = Fin (real n)"
proof -
  obtain c cs where dc: "dec_string n = c # cs"
    by (cases "dec_string n") auto
  have "dropWhile is_js_ws (w @ dec_string n @ rest) = dec_string n @ rest"
    using ws dec_string_hd(1) [of n] by (simp add: dropWhile_append dc)
  moreover have "sign_prefix (dec_string n @ rest) = (1, dec_string n @ rest)"
    using dec_string_hd(2,3) [of n] by (simp add: dc)
  moreover have "takeWhile is_digit (dec_string n @ rest) = dec_string n"
    using rest dec_string_digits [of _ n] by (cases rest) (auto simp: takeWhile_append)
  ultimately show ?thesis by (simp add: js_parseInt_def)
qed

lemma js_parseInt_dec_string_exact [simp, js_simps]:
  "js_parseInt (dec_string n) = Fin (real n)"
  using js_parseInt_dec_string [of "[]" "[]" n] by simp

section \<open>Signed integers in files\<close>

text \<open>A one-line file holding a signed decimal integer, as cgroup files do,
  and the lemmas that read it back through \<open>trim\<close> and \<open>parseInt\<close>.\<close>

definition int_string :: "int \<Rightarrow> string" where
  "int_string i = (if i < 0 then CHR ''-'' # dec_string (nat (- i)) else dec_string (nat i))"

lemma js_trim_append_ws:
  assumes "\<forall>c \<in> set w. is_js_ws c"
  shows "js_trim (s @ w) = js_trim s"
proof (cases "\<forall>c \<in> set s. is_js_ws c")
  case True
  then have "dropWhile is_js_ws s = []" "dropWhile is_js_ws (s @ w) = []"
    using assms by (simp_all add: dropWhile_eq_Nil_conv)
  then show ?thesis by (simp only: js_trim_def rev.simps dropWhile.simps)
next
  case False
  then show ?thesis using assms by (auto simp: js_trim_def dropWhile_append)
qed

lemma takeWhile_dec_string [simp]: "takeWhile is_digit (dec_string n) = dec_string n"
  by (simp add: takeWhile_eq_all_conv dec_string_digits)

lemma int_string_shape:
  "int_string i \<noteq> []" "\<not> is_js_ws (hd (int_string i))" "\<not> is_js_ws (last (int_string i))"
  using dec_string_hd(1) dec_string_last
  by (auto simp: int_string_def is_js_ws_def)

lemma js_parseInt_int_string:
  assumes "\<forall>c \<in> set w. is_js_ws c"
  shows "js_parseInt (js_trim (int_string i @ w)) = Fin (real_of_int i)"
proof -
  have t: "js_trim (int_string i @ w) = int_string i"
    using js_trim_append_ws [OF assms] js_trim_id [OF int_string_shape] by simp
  show ?thesis
  proof (cases "i < 0")
    case True
    have "js_parseInt (CHR ''-'' # dec_string (nat (- i))) = Fin (- real (nat (- i)))"
      by (simp add: js_parseInt_def is_js_ws_def)
    with True t show ?thesis by (simp add: int_string_def)
  next
    case False
    with t show ?thesis by (simp add: int_string_def)
  qed
qed

end
