(* ===== verification/Host_Env.thy ===== *)
theory Host_Env
  imports JS_Strings
begin

text \<open>
  The environment one call of the probe observes: the facilities of Node's
  \<open>os\<close> module, a snapshot of the file system as \<open>fs\<close> sees it, and the wall
  clock of \<open>new Date().getTime()\<close>. One \<open>host\<close> value is the world during one
  call; successive calls see successive hosts. The file system is a map from
  paths to contents (\<open>fs_files\<close>) and from directories to their listing
  (\<open>fs_dirs\<close>); \<open>fs.existsSync\<close>, \<open>fs.readFileSync\<close> and \<open>fs.readdirSync\<close>
  read it, the last two throwing \<open>ENOENT\<close> on a missing path. As in a Unix
  file system, existing and being readable differ: \<open>fs_unreadable\<close> holds the
  paths that exist but that the agent may not read (no read permission, or
  a directory), which \<open>fs.existsSync\<close> reports and on which
  \<open>fs.readFileSync\<close> throws (\<open>EACCES\<close>; \<open>EISDIR\<close> is not told apart). A process that
  exits between \<open>readdirSync('/proc')\<close> and the read of its \<open>stat\<close> file is a
  name in the listing whose file is absent.
\<close>

text \<open>\<open>os.cpus()[i].times\<close> (milliseconds in each state, counters).\<close>

record cpu_times =
  t_user :: nat
  t_nice :: nat
  t_sys :: nat
  t_idle :: nat
  t_irq :: nat

record host =
  os_type :: string                 \<comment> \<open>\<open>os.type()\<close>\<close>
  os_cpus :: "cpu_times list"       \<comment> \<open>\<open>os.cpus()\<close>\<close>
  os_uptime :: real                 \<comment> \<open>\<open>os.uptime()\<close>\<close>
  os_totalmem :: nat                \<comment> \<open>\<open>os.totalmem()\<close>\<close>
  os_freemem :: nat                 \<comment> \<open>\<open>os.freemem()\<close>\<close>
  os_loadavg :: "real \<times> real \<times> real" \<comment> \<open>\<open>os.loadavg()\<close>\<close>
  fs_files :: "string \<Rightarrow> string option"
  fs_dirs :: "string \<Rightarrow> string list option"
  fs_unreadable :: "string set"
  clock_ms :: int                   \<comment> \<open>\<open>new Date().getTime()\<close>\<close>

definition fs_existsSync :: "host \<Rightarrow> string \<Rightarrow> bool" where
  "fs_existsSync h p \<longleftrightarrow> fs_files h p \<noteq> None \<or> p \<in> fs_unreadable h"

definition fs_readFileSync :: "host \<Rightarrow> string \<Rightarrow> string js_result" where
  "fs_readFileSync h p =
     (case fs_files h p of
        None \<Rightarrow> Inl (if p \<in> fs_unreadable h then EACCES p else ENOENT p)
      | Some c \<Rightarrow> Inr c)"

definition fs_readdirSync :: "host \<Rightarrow> string \<Rightarrow> string list js_result" where
  "fs_readdirSync h p = (case fs_dirs h p of None \<Rightarrow> Inl (ENOENT p) | Some es \<Rightarrow> Inr es)"

definition is_linux :: "host \<Rightarrow> bool" where
  "is_linux h \<longleftrightarrow> os_type h = ''Linux''"

lemma fs_readFileSync_simps [simp, js_simps]:
  "fs_files h p = Some c \<Longrightarrow> fs_readFileSync h p = Inr c"
  "fs_files h p = None \<Longrightarrow> p \<notin> fs_unreadable h \<Longrightarrow> fs_readFileSync h p = Inl (ENOENT p)"
  "fs_files h p = None \<Longrightarrow> p \<in> fs_unreadable h \<Longrightarrow> fs_readFileSync h p = Inl (EACCES p)"
  by (simp_all add: fs_readFileSync_def)

lemma fs_readdirSync_simps [simp, js_simps]:
  "fs_dirs h p = Some es \<Longrightarrow> fs_readdirSync h p = Inr es"
  "fs_dirs h p = None \<Longrightarrow> fs_readdirSync h p = Inl (ENOENT p)"
  by (simp_all add: fs_readdirSync_def)

lemma fs_readFileSync_Inr_iff: "(\<exists>c. fs_readFileSync h p = Inr c) \<longleftrightarrow> fs_files h p \<noteq> None"
  by (cases "fs_files h p") (simp_all add: fs_readFileSync_def)

lemma fs_readable_exists: "fs_files h p \<noteq> None \<Longrightarrow> fs_existsSync h p"
  by (simp add: fs_existsSync_def)

text \<open>The unfoldings that evaluate the probe on a concrete host by \<open>simp\<close>.\<close>

lemmas host_eval_simps = fs_readFileSync_def fs_existsSync_def fs_readdirSync_def is_linux_def
  js_trim_def is_js_ws_def js_indexOf_def arr_get_conv_nth js_parseInt_def is_digit_def
  digits_value_def digit_val_def Let_def

end
