(* ===== verification/Env_Detect.thy ===== *)
theory Env_Detect
  imports Host_Env
begin

text \<open>
  Environment Detector, \<open>isInDocker\<close> of \<open>src/lib/orders/system.js\<close>
  (lines 52--67). The body of its \<open>try\<close> block reads \<open>/proc/self/cgroup\<close>,
  trims and splits it into lines, and scans them in order: a line that
  mentions \<open>device\<close> or \<open>cpu\<close> is split at \<open>:\<close> and its third field tested for
  the prefix \<open>/docker/\<close>. \<open>cgroup_scan\<close> is that loop; a line with fewer than
  three fields makes \<open>one[2].indexOf\<close> throw a \<open>TypeError\<close>. The \<open>catch\<close>
  turns every exception (missing file, malformed line) into \<open>false\<close>.
\<close>

fun cgroup_scan :: "string list \<Rightarrow> bool js_result" where
  "cgroup_scan [] = Inr False"
| "cgroup_scan (l # ls) =
     (if 0 \<le> js_indexOf l ''device'' \<or> 0 \<le> js_indexOf l ''cpu'' then
        (case arr_get (split_on CHR '':'' l) 2 of
           None \<Rightarrow> Inl (TypeError ''Cannot read properties of undefined (reading indexOf)'')
         | Some one2 \<Rightarrow>
             if js_indexOf one2 ''/docker/'' = 0 then Inr True else cgroup_scan ls)
      else cgroup_scan ls)"

definition isInDocker :: "host \<Rightarrow> bool" where
  "isInDocker h =
     (case js_bind (fs_readFileSync h ''/proc/self/cgroup'')
             (\<lambda>raw. cgroup_scan (split_on CHR 0x0A (js_trim raw))) of
        Inl err \<Rightarrow> False
      | Inr b \<Rightarrow> b)"

section \<open>Specification of the classification\<close>

text \<open>
  A cgroup line is relevant when it mentions \<open>device\<close> or \<open>cpu\<close>; its path is
  its third \<open>:\<close>-separated field. \<open>docker_listed\<close> says that some relevant
  line has a path starting with \<open>/docker/\<close> and that no relevant line before
  it lacks a third field (the scan would throw there).
\<close>

definition cgroup_relevant :: "string \<Rightarrow> bool" where
  "cgroup_relevant l \<longleftrightarrow> sublist ''device'' l \<or> sublist ''cpu'' l"

definition cgroup_path :: "string \<Rightarrow> string option" where
  "cgroup_path l = arr_get (split_on CHR '':'' l) 2"

definition docker_listed :: "string list \<Rightarrow> bool" where
  "docker_listed ls \<longleftrightarrow>
     (\<exists>i < length ls. cgroup_relevant (ls ! i) \<and>
        (\<exists>p. cgroup_path (ls ! i) = Some p \<and> prefix ''/docker/'' p) \<and>
        (\<forall>j < i. cgroup_relevant (ls ! j) \<longrightarrow> cgroup_path (ls ! j) \<noteq> None))"

lemma docker_listed_Nil [simp]: "\<not> docker_listed []"
  by (simp add: docker_listed_def)

lemma docker_listed_Cons:
  "docker_listed (l # ls) \<longleftrightarrow>
     (cgroup_relevant l \<and> (\<exists>p. cgroup_path l = Some p \<and> prefix ''/docker/'' p)) \<or>
     ((cgroup_relevant l \<longrightarrow> cgroup_path l \<noteq> None) \<and> docker_listed ls)"
  (is "?L \<longleftrightarrow> ?A \<or> ?B")
proof
  assume ?L
  then obtain i where i: "i < Suc (length ls)" "cgroup_relevant ((l # ls) ! i)"
      "\<exists>p. cgroup_path ((l # ls) ! i) = Some p \<and> prefix ''/docker/'' p"
      "\<forall>j < i. cgroup_relevant ((l # ls) ! j) \<longrightarrow> cgroup_path ((l # ls) ! j) \<noteq> None"
    by (auto simp: docker_listed_def)
  show "?A \<or> ?B"
  proof (cases i)
    case 0
    with i show ?thesis by simp
  next
    case (Suc k)
    have "\<forall>j < k. cgroup_relevant (ls ! j) \<longrightarrow> cgroup_path (ls ! j) \<noteq> None"
      using i(4) Suc by auto
    with i Suc have "docker_listed ls" by (auto simp: docker_listed_def)
    moreover have "cgroup_relevant l \<longrightarrow> cgroup_path l \<noteq> None"
      using i(4) Suc by (metis nth_Cons_0 zero_less_Suc)
    ultimately show ?thesis by blast
  qed
next
  assume "?A \<or> ?B"
  then show ?L
  proof
    assume ?A
    then show ?L unfolding docker_listed_def by (intro exI [of _ 0]) auto
  next
    assume b: ?B
    then obtain i where i: "i < length ls" "cgroup_relevant (ls ! i)"
        "\<exists>p. cgroup_path (ls ! i) = Some p \<and> prefix ''/docker/'' p"
        "\<forall>j < i. cgroup_relevant (ls ! j) \<longrightarrow> cgroup_path (ls ! j) \<noteq> None"
      by (auto simp: docker_listed_def)
    have "\<forall>j < Suc i. cgroup_relevant ((l # ls) ! j) \<longrightarrow> cgroup_path ((l # ls) ! j) \<noteq> None"
      using i(4) b by (auto simp: less_Suc_eq_0_disj)
    with i show ?L unfolding docker_listed_def by (intro exI [of _ "Suc i"]) auto
  qed
qed

lemma cgroup_scan_True_iff: "cgroup_scan ls = Inr True \<longleftrightarrow> docker_listed ls"
  by (induction ls)
     (auto simp: docker_listed_Cons cgroup_relevant_def cgroup_path_def js_simps
           split: option.split)

text \<open>
  Claim C16 (functional). \<open>isInDocker\<close> holds exactly when
  \<open>/proc/self/cgroup\<close> exists and its trimmed lines satisfy \<open>docker_listed\<close>:
  a missing file, or a malformed relevant line before the first container
  path, classifies the process as not containerised.
\<close>

theorem isInDocker_iff:
  "isInDocker h \<longleftrightarrow>
     (\<exists>raw. fs_files h ''/proc/self/cgroup'' = Some raw \<and>
            docker_listed (split_on CHR 0x0A (js_trim raw)))"
proof (cases "fs_files h ''/proc/self/cgroup''")
  case None
  then show ?thesis by (simp add: isInDocker_def fs_readFileSync_def)
next
  case (Some raw)
  then show ?thesis
    by (cases "cgroup_scan (split_on CHR 0x0A (js_trim raw))")
       (auto simp: isInDocker_def cgroup_scan_True_iff [symmetric])
qed

subsection \<open>Concrete cgroup membership files\<close>

definition cgroup_file_host :: "string \<Rightarrow> host" where
  "cgroup_file_host raw = \<lparr>os_type = ''Linux'', os_cpus = [], os_uptime = 0, os_totalmem = 0,
     os_freemem = 0, os_loadavg = (0, 0, 0), fs_files = [''/proc/self/cgroup'' \<mapsto> raw],
     fs_dirs = Map.empty, fs_unreadable = {}, clock_ms = 0\<rparr>"

theorem isInDocker_iff_witness:
  "isInDocker (cgroup_file_host ''12:devices:/docker/3f2a\<newline>11:cpu,cpuacct:/docker/3f2a\<newline>'')
   \<and> \<not> isInDocker (cgroup_file_host ''3:cpu\<newline>12:devices:/docker/3f2a\<newline>'')"
proof
  have "docker_listed [''12:devices:/docker/3f2a'', ''11:cpu,cpuacct:/docker/3f2a'']"
    by (simp add: docker_listed_Cons cgroup_relevant_def cgroup_path_def sublist_Cons_right arr_get_conv_nth)
  then show "isInDocker (cgroup_file_host ''12:devices:/docker/3f2a\<newline>11:cpu,cpuacct:/docker/3f2a\<newline>'')"
    using isInDocker_iff by (simp add: cgroup_file_host_def js_trim_def is_js_ws_def)
  have "\<not> docker_listed [''3:cpu'', ''12:devices:/docker/3f2a'']"
    by (simp add: docker_listed_Cons cgroup_relevant_def cgroup_path_def sublist_Cons_right arr_get_conv_nth)
  then show "\<not> isInDocker (cgroup_file_host ''3:cpu\<newline>12:devices:/docker/3f2a\<newline>'')"
    using isInDocker_iff by (simp add: cgroup_file_host_def js_trim_def is_js_ws_def)
qed

end
