(* ===== verification/Docker_Quota.thy ===== *)
theory Docker_Quota
  imports Host_Env
begin

text \<open>
  Container CPU-Quota Resolver, \<open>_getDockerCPUs\<close> of
  \<open>src/lib/orders/system.js\<close> (lines 73--100), here \<open>getDockerCPUs\<close>. It
  returns the CPU share allotted by the cgroup v1 quota and period files, and
  \<open>os.cpus().length\<close> when the host is not Linux, either file is missing, the
  quota is \<open>-1\<close> or the period is \<open><= 0\<close>. The reads are guarded by
  \<open>existsSync\<close> on the same snapshot, so they cannot throw; the result type
  still carries the \<open>readFileSync\<close> exceptions, and a lemma shows none
  escapes.
\<close>

definition cfs_period_path :: string where
  "cfs_period_path = ''/sys/fs/cgroup/cpu/cpu.cfs_period_us''"

definition cfs_quota_path :: string where
  "cfs_quota_path = ''/sys/fs/cgroup/cpu/cpu.cfs_quota_us''"

definition getDockerCPUs :: "host \<Rightarrow> jsnum js_result" where
  "getDockerCPUs h =
     (let def_cpu = Fin (real (length (os_cpus h))) in
      if \<not> is_linux h then Inr def_cpu
      else if \<not> fs_existsSync h cfs_period_path then Inr def_cpu
      else if \<not> fs_existsSync h cfs_quota_path then Inr def_cpu
      else js_bind (fs_readFileSync h cfs_quota_path) (\<lambda>q.
             let quota = js_parseInt (js_trim q) in
             if js_strict_eq quota (Fin (-1)) then Inr def_cpu
             else js_bind (fs_readFileSync h cfs_period_path) (\<lambda>p.
                    let period = js_parseInt (js_trim p) in
                    if js_le period (Fin 0) then Inr def_cpu
                    else Inr (js_div quota period))))"

text \<open>
  Claim C8 (functional). On Linux, with both cgroup files present, a quota
  \<open>q\<close> other than \<open>-1\<close> and a positive period \<open>p\<close>, \<open>getDockerCPUs\<close> returns the
  share \<open>q / p\<close> exactly (for instance 150000 / 100000 = 1.5 CPUs). The code
  does so for every \<open>q \<noteq> -1\<close>, zero and negative quotas included.
\<close>

theorem getDockerCPUs_quota_share:
  assumes "is_linux h"
    and "fs_files h cfs_quota_path = Some (int_string q @ w1)" "\<forall>c \<in> set w1. is_js_ws c"
    and "fs_files h cfs_period_path = Some (int_string p @ w2)" "\<forall>c \<in> set w2. is_js_ws c"
    and "q \<noteq> -1" "0 < p"
  shows "getDockerCPUs h = Inr (Fin (real_of_int q / real_of_int p))"
  using assms js_parseInt_int_string [OF assms(3), of q] js_parseInt_int_string [OF assms(5), of p]
  by (simp add: getDockerCPUs_def fs_existsSync_def)

text \<open>
  Claim C9 (functional, fallbacks). \<open>getDockerCPUs\<close> returns the number of
  logical CPUs when the host is not Linux, when the period or the quota file
  does not exist, when the quota is \<open>-1\<close>, or when the period is not positive.
\<close>

theorem getDockerCPUs_fallback:
  assumes "\<not> is_linux h \<or> \<not> fs_existsSync h cfs_period_path \<or> \<not> fs_existsSync h cfs_quota_path
      \<or> (\<exists>w. fs_files h cfs_quota_path = Some (int_string (-1) @ w) \<and> (\<forall>c \<in> set w. is_js_ws c))
      \<or> (\<exists>qc p w. fs_files h cfs_quota_path = Some qc \<and>
           fs_files h cfs_period_path = Some (int_string p @ w) \<and> (\<forall>c \<in> set w. is_js_ws c) \<and> p \<le> 0)"
  shows "getDockerCPUs h = Inr (Fin (real (length (os_cpus h))))"
  using assms
proof (elim disjE exE conjE)
  fix qc p w
  assume q: "fs_files h cfs_quota_path = Some qc"
    and pf: "fs_files h cfs_period_path = Some (int_string p @ w)" and w: "\<forall>c \<in> set w. is_js_ws c"
    and p: "p \<le> 0"
  show ?thesis
    using q pf p js_parseInt_int_string [OF w, of p]
    by (simp add: getDockerCPUs_def fs_existsSync_def Let_def)
next
  fix w
  assume "fs_files h cfs_quota_path = Some (int_string (-1) @ w)" "\<forall>c \<in> set w. is_js_ws c"
  then show ?thesis
    using js_parseInt_int_string [of w "-1"]
    by (cases "fs_files h cfs_period_path") (simp_all add: getDockerCPUs_def fs_existsSync_def Let_def)
qed (simp_all add: getDockerCPUs_def fs_existsSync_def Let_def)

text \<open>
  Claim C10 (error). \<open>getDockerCPUs\<close> throws exactly when it reads a cgroup
  file that exists but cannot be read: on Linux, with both files present,
  the quota file is unreadable, or the quota is not \<open>-1\<close> and the period
  file is unreadable. The exception is \<open>EACCES\<close> of that file: the
  \<open>existsSync\<close> guards only test existence, and no \<open>try\<close> surrounds the reads.
\<close>

theorem getDockerCPUs_throws_iff:
  "getDockerCPUs h = Inl e \<longleftrightarrow>
     is_linux h \<and> fs_existsSync h cfs_period_path \<and> fs_existsSync h cfs_quota_path \<and>
     (case fs_files h cfs_quota_path of
        None \<Rightarrow> e = EACCES cfs_quota_path
      | Some q \<Rightarrow> \<not> js_strict_eq (js_parseInt (js_trim q)) (Fin (-1)) \<and>
                  fs_files h cfs_period_path = None \<and> e = EACCES cfs_period_path)"
  by (auto simp: getDockerCPUs_def fs_existsSync_def fs_readFileSync_def Let_def
      split: option.split)

text \<open>
  Claim C11 (error path). A period file that does not parse as an integer
  (\<open>parseInt\<close> gives \<open>NaN\<close>, and \<open>NaN <= 0\<close> is false) is not treated as
  invalid: the share is \<open>quota / NaN = NaN\<close>, not the CPU count.
\<close>

theorem getDockerCPUs_period_NaN:
  assumes "is_linux h" "fs_files h cfs_quota_path = Some (int_string q @ w)" "\<forall>c \<in> set w. is_js_ws c"
    and "q \<noteq> -1" "fs_files h cfs_period_path = Some pc" "js_parseInt (js_trim pc) = NaN"
  shows "getDockerCPUs h = Inr NaN"
  using assms js_parseInt_int_string [OF assms(3), of q]
  by (simp add: getDockerCPUs_def fs_existsSync_def)

subsection \<open>Concrete cgroup files\<close>

text \<open>A Linux host with \<open>n\<close> CPUs whose quota and period files hold the
  given texts (\<open>None\<close>: the file is absent).\<close>

definition cgroup_host :: "nat \<Rightarrow> string option \<Rightarrow> string option \<Rightarrow> host" where
  "cgroup_host n qf pf = \<lparr>os_type = ''Linux'',
     os_cpus = replicate n \<lparr>t_user = 0, t_nice = 0, t_sys = 0, t_idle = 0, t_irq = 0\<rparr>,
     os_uptime = 0, os_totalmem = 0, os_freemem = 0, os_loadavg = (0, 0, 0),
     fs_files = (\<lambda>p. if p = cfs_quota_path then qf else if p = cfs_period_path then pf else None),
     fs_dirs = Map.empty, fs_unreadable = {}, clock_ms = 0\<rparr>"

lemma cgroup_host_simps [simp]:
  "fs_files (cgroup_host n qf pf) cfs_quota_path = qf"
  "fs_files (cgroup_host n qf pf) cfs_period_path = pf"
  "is_linux (cgroup_host n qf pf)"
  "length (os_cpus (cgroup_host n qf pf)) = n"
  "fs_unreadable (cgroup_host n qf pf) = {}"
  by (simp_all add: cgroup_host_def is_linux_def cfs_quota_path_def cfs_period_path_def)

theorem getDockerCPUs_quota_share_witness:
  "getDockerCPUs (cgroup_host 8 (Some (int_string 150000 @ ''\<newline>'')) (Some (int_string 100000 @ ''\<newline>'')))
     = Inr (Fin (3 / 2))"
  using getDockerCPUs_quota_share [of "cgroup_host 8 (Some (int_string 150000 @ ''\<newline>''))
      (Some (int_string 100000 @ ''\<newline>''))" 150000 "''\<newline>''" 100000 "''\<newline>''"]
  by (simp add: is_js_ws_def)

theorem getDockerCPUs_fallback_witness:
  "getDockerCPUs (cgroup_host 8 (Some (int_string (-1) @ ''\<newline>'')) (Some (int_string 100000 @ ''\<newline>'')))
     = Inr (Fin 8)"
  using getDockerCPUs_fallback [of "cgroup_host 8 (Some (int_string (-1) @ ''\<newline>''))
      (Some (int_string 100000 @ ''\<newline>''))"]
  by (simp add: is_js_ws_def)

text \<open>A container whose quota file exists but may not be read by the agent.\<close>

theorem getDockerCPUs_throws_iff_witness:
  "getDockerCPUs ((cgroup_host 8 None (Some ''100000\<newline>''))\<lparr>fs_unreadable := {cfs_quota_path}\<rparr>)
     = Inl (EACCES cfs_quota_path)"
  using getDockerCPUs_throws_iff [of "(cgroup_host 8 None (Some ''100000\<newline>''))\<lparr>fs_unreadable := {cfs_quota_path}\<rparr>"
      "EACCES cfs_quota_path"]
  by (simp add: cgroup_host_def is_linux_def fs_existsSync_def cfs_quota_path_def cfs_period_path_def)

theorem getDockerCPUs_period_NaN_witness:
  "getDockerCPUs (cgroup_host 8 (Some (int_string 50000 @ ''\<newline>'')) (Some ''max\<newline>'')) = Inr NaN"
proof (rule getDockerCPUs_period_NaN [where q = 50000 and w = "''\<newline>''" and pc = "''max\<newline>''"])
  show "js_parseInt (js_trim ''max\<newline>'') = NaN"
    by (simp add: js_parseInt_def js_trim_def is_js_ws_def is_digit_def)
qed (simp_all add: is_js_ws_def)

end
