(* ===== verification/Proc_CPU.thy ===== *)
theory Proc_CPU
  imports Host_Env
begin

text \<open>
  Per-Process CPU Aggregator of \<open>src/lib/orders/system.js\<close>:
  \<open>_isPID\<close> (lines 102--116, here \<open>isPID\<close>), \<open>_getProcessCPU\<close> (lines
  118--134, here \<open>getProcessCPU\<close>) and \<open>getAllCPU\<close> (lines 136--151).
  \<open>getAllCPU\<close> lists \<open>/proc\<close> (\<open>readdirSync\<close> throws if it is missing),
  keeps the all-digit names, and sums, for each, fields 13 to 16 of the
  space-separated \<open>/proc/<pid>/stat\<close> line (utime, stime, cutime, cstime).
  A vanished process contributes 0; a missing field is \<open>parseInt(undefined)\<close>,
  that is \<open>NaN\<close>, which no \<open>catch\<close> intercepts.
\<close>

text \<open>\<open>_isPID\<close>: the \<open>typeof s !== 'string'\<close> guard never fires on the names
  \<open>readdirSync\<close> returns, so the model starts at the length test.\<close>

fun pid_chars_ok :: "string \<Rightarrow> bool" where
  "pid_chars_ok [] = True"
| "pid_chars_ok (c # cs) = (if js_indexOf ''0123456789'' [c] < 0 then False else pid_chars_ok cs)"

definition isPID :: "string \<Rightarrow> bool" where
  "isPID s = (if length s = 0 then False else pid_chars_ok s)"

text \<open>\<open>path.join('/proc', pid, 'stat')\<close>; for an all-digit \<open>pid\<close> no
  normalisation applies.\<close>

definition proc_stat_path :: "string \<Rightarrow> string" where
  "proc_stat_path pid = ''/proc/'' @ pid @ ''/stat''"

definition getProcessCPU :: "host \<Rightarrow> string \<Rightarrow> jsnum" where
  "getProcessCPU h p =
     (if \<not> fs_existsSync h p then Fin 0
      else case fs_readFileSync h p of
        Inl err \<Rightarrow> Fin 0
      | Inr c \<Rightarrow>
          (let pstat = split_on CHR '' '' (js_trim c);
               fld = (\<lambda>i. js_parseInt_opt (arr_get pstat i))
           in js_add (js_add (js_add (fld 13) (fld 14)) (fld 15)) (fld 16)))"

definition getAllCPU :: "host \<Rightarrow> jsnum js_result" where
  "getAllCPU h =
     js_bind (fs_readdirSync h ''/proc'') (\<lambda>all.
       let processes = map proc_stat_path (filter isPID all)
       in Inr (foldl (\<lambda>total p. js_add total (getProcessCPU h p)) (Fin 0) processes))"

section \<open>Abstract view of a process's stat line\<close>

text \<open>
  \<open>/proc/<pid>/stat\<close> as the kernel prints it: one line of blank-separated
  tokens, of which the 14th to 17th (offsets 13--16) are utime, stime, cutime
  and cstime. \<open>pstat_line\<close> holds the 13 tokens before them, the four
  counters and the tokens after; \<open>wf_pstat\<close> asks that every other token be
  a non-empty run of visible characters, which fails when the command name
  (the second token, \<open>(comm)\<close>) contains a blank.
\<close>

record pstat_line =
  ps_head :: "string list"
  ps_utime :: nat
  ps_stime :: nat
  ps_cutime :: nat
  ps_cstime :: nat
  ps_tail :: "string list"

definition pstat_tokens :: "pstat_line \<Rightarrow> string list" where
  "pstat_tokens st = ps_head st @ map dec_string [ps_utime st, ps_stime st, ps_cutime st, ps_cstime st]
     @ ps_tail st"

definition render_pstat :: "pstat_line \<Rightarrow> string" where
  "render_pstat st = join_with CHR '' '' (pstat_tokens st) @ ''\<newline>''"

definition stat_token :: "string \<Rightarrow> bool" where
  "stat_token w \<longleftrightarrow> w \<noteq> [] \<and> list_all (\<lambda>c. \<not> is_js_ws c) w"

definition wf_pstat :: "pstat_line \<Rightarrow> bool" where
  "wf_pstat st \<longleftrightarrow> length (ps_head st) = 13 \<and> list_all stat_token (ps_head st @ ps_tail st)"

definition pstat_ticks :: "pstat_line \<Rightarrow> nat" where
  "pstat_ticks st = ps_utime st + ps_stime st + ps_cutime st + ps_cstime st"

lemma pstat_tokens_ok:
  assumes "wf_pstat st"
  shows "\<forall>w \<in> set (pstat_tokens st). stat_token w"
  using assms dec_string_no_ws
  by (auto simp: wf_pstat_def pstat_tokens_def stat_token_def list_all_iff)

text \<open>A stat file is one line of tokens joined by blanks: \<open>_getProcessCPU\<close>
  reads its tokens 13 to 16, whatever the line holds.\<close>

lemma trim_join_tokens:
  assumes "ts \<noteq> []" "list_all stat_token ts"
  shows "js_trim (join_with CHR '' '' ts @ ''\<newline>'') = join_with CHR '' '' ts"
proof -
  have t1: "stat_token (hd ts)" "stat_token (last ts)"
    using assms by (simp_all add: list_all_iff)
  then have hne: "hd ts \<noteq> []" "last ts \<noteq> []"
    and vis: "\<forall>c \<in> set (hd ts). \<not> is_js_ws c" "\<forall>c \<in> set (last ts). \<not> is_js_ws c"
    by (simp_all add: stat_token_def list_all_iff)
  have "\<not> is_js_ws (hd (hd ts))" "\<not> is_js_ws (last (last ts))"
    using vis hne hd_in_set last_in_set by blast+
  then have "js_trim (join_with CHR '' '' ts) = join_with CHR '' '' ts"
    using assms(1) hne by (intro js_trim_id) (simp_all add: join_with_not_Nil hd_join_with last_join_with)
  then show ?thesis
    using js_trim_append_ws [of "''\<newline>''" "join_with CHR '' '' ts"] by (simp add: is_js_ws_def)
qed

lemma split_join_tokens:
  assumes "ts \<noteq> []" "list_all stat_token ts"
  shows "split_on CHR '' '' (join_with CHR '' '' ts) = ts"
proof -
  have sp: "is_js_ws CHR '' ''" by (simp add: is_js_ws_def)
  show ?thesis
    using assms sp by (intro split_on_join_with) (auto simp: stat_token_def list_all_iff)
qed

lemma getProcessCPU_tokens:
  assumes "fs_files h p = Some (join_with CHR '' '' ts @ ''\<newline>'')" "ts \<noteq> []" "list_all stat_token ts"
  shows "getProcessCPU h p =
    js_add (js_add (js_add (js_parseInt_opt (arr_get ts 13)) (js_parseInt_opt (arr_get ts 14)))
      (js_parseInt_opt (arr_get ts 15))) (js_parseInt_opt (arr_get ts 16))"
  using assms trim_join_tokens [OF assms(2,3)] split_join_tokens [OF assms(2,3)]
  by (simp add: getProcessCPU_def fs_existsSync_def)

lemma dec_string_token: "stat_token (dec_string n)"
  using dec_string_no_ws by (simp add: stat_token_def list_all_iff)

lemma getProcessCPU_render:
  assumes "wf_pstat st" "fs_files h p = Some (render_pstat st)"
  shows "getProcessCPU h p = Fin (real (pstat_ticks st))"
proof -
  have ok: "list_all stat_token (pstat_tokens st)"
    using pstat_tokens_ok [OF assms(1)] by (simp add: list_all_iff)
  have ne: "pstat_tokens st \<noteq> []" by (simp add: pstat_tokens_def)
  have "length (ps_head st) = 13" using assms(1) by (simp add: wf_pstat_def)
  then show ?thesis
    using getProcessCPU_tokens [OF _ ne ok] assms(2)
    by (simp add: render_pstat_def pstat_tokens_def pstat_ticks_def arr_get_conv_nth nth_append)
qed

lemma foldl_js_add_Fin:
  "\<forall>x \<in> set xs. F x = Fin (real (G x)) \<Longrightarrow>
     foldl (\<lambda>t x. js_add t (F x)) (Fin a) xs = Fin (a + real (sum_list (map G xs)))"
  by (induction xs arbitrary: a) (simp_all add: algebra_simps)

lemma foldl_js_add_NaN:
  "\<exists>x \<in> set xs. F x = NaN \<Longrightarrow> foldl (\<lambda>t x. js_add t (F x)) a xs = NaN"
proof (induction xs arbitrary: a)
  case (Cons x xs)
  have stuck: "foldl (\<lambda>t x. js_add t (F x)) NaN ys = NaN" for ys
    by (induction ys) simp_all
  show ?case
  proof (cases "F x = NaN")
    case True
    with stuck show ?thesis by simp
  next
    case False
    with Cons show ?thesis by simp
  qed
qed simp

lemma nat_digit_codes: "(x::nat) \<in> {48,49,50,51,52,53,54,55,56,57} \<longleftrightarrow> 48 \<le> x \<and> x \<le> 57" by auto presburger

lemma digit_member_iff: "c \<in> set ''0123456789'' \<longleftrightarrow> is_digit c"
proof -
  have inj: "inj (of_char :: char \<Rightarrow> nat)" by (rule injI) simp
  have "c \<in> set ''0123456789'' \<longleftrightarrow> (of_char c :: nat) \<in> of_char ` set ''0123456789''"
    by (simp only: inj_image_mem_iff [OF inj])
  also have "\<dots> \<longleftrightarrow> (of_char c :: nat) \<in> {48,49,50,51,52,53,54,55,56,57}"
    by simp
  also have "\<dots> \<longleftrightarrow> is_digit c"
    unfolding is_digit_def by (rule nat_digit_codes)
  finally show ?thesis .
qed

lemma sublist_single_iff: "sublist [x] ys \<longleftrightarrow> x \<in> set ys"
  by (auto simp: sublist_def in_set_conv_decomp)

text \<open>
  Claim C12 (functional). When \<open>/proc\<close> lists \<open>entries\<close> and the stat file of
  each all-digit entry is either absent (the process exited) or a well-formed
  stat line of the process table \<open>ptable\<close>, \<open>getAllCPU\<close> returns the sum of
  utime + stime + cutime + cstime over the all-digit entries, counting 0 for
  vanished processes; other entries (\<open>self\<close>, \<open>cpuinfo\<close>, ...) are skipped.
\<close>

theorem getAllCPU_sums_ticks:
  assumes "fs_dirs h ''/proc'' = Some entries"
    and "\<forall>pid \<in> set entries. isPID pid \<longrightarrow>
           fs_files h (proc_stat_path pid) = map_option render_pstat (ptable pid)"
    and "\<forall>pid st. ptable pid = Some st \<longrightarrow> wf_pstat st"
  shows "getAllCPU h = Inr (Fin (real (\<Sum>pid \<leftarrow> filter isPID entries.
           case ptable pid of None \<Rightarrow> 0 | Some st \<Rightarrow> pstat_ticks st)))"
proof -
  let ?G = "\<lambda>pid. case ptable pid of None \<Rightarrow> 0 | Some st \<Rightarrow> pstat_ticks st"
  have "\<forall>pid \<in> set (filter isPID entries). getProcessCPU h (proc_stat_path pid) = Fin (real (?G pid))"
  proof
    fix pid assume "pid \<in> set (filter isPID entries)"
    with assms(2) have f: "fs_files h (proc_stat_path pid) = map_option render_pstat (ptable pid)"
      by simp
    show "getProcessCPU h (proc_stat_path pid) = Fin (real (?G pid))"
    proof (cases "ptable pid")
      case None
      with f show ?thesis by (simp add: getProcessCPU_def fs_existsSync_def)
    next
      case (Some st)
      with f assms(3) show ?thesis by (simp add: getProcessCPU_render)
    qed
  qed
  from foldl_js_add_Fin [OF this, of 0] assms(1) show ?thesis
    by (simp add: getAllCPU_def foldl_map)
qed

text \<open>
  Claim C13 (error path). A listed process whose stat file exists but has at
  most 16 blank-separated fields contributes \<open>parseInt(undefined) = NaN\<close>
  (no exception is thrown, so the \<open>catch\<close> does not apply), and \<open>NaN\<close>
  absorbs the whole sum: \<open>getAllCPU\<close> returns \<open>NaN\<close>, not the sum of the
  other processes.
\<close>

theorem getAllCPU_short_stat_NaN:
  assumes "fs_dirs h ''/proc'' = Some entries" "pid \<in> set entries" "isPID pid"
    and "fs_files h (proc_stat_path pid) = Some c" "length (split_on CHR '' '' (js_trim c)) \<le> 16"
  shows "getAllCPU h = Inr NaN"
proof -
  have "getProcessCPU h (proc_stat_path pid) = NaN"
    using assms(4,5) by (simp add: getProcessCPU_def fs_existsSync_def arr_get_conv_nth Let_def)
  then have "\<exists>pid \<in> set (filter isPID entries). getProcessCPU h (proc_stat_path pid) = NaN"
    using assms(2,3) by auto
  from foldl_js_add_NaN [OF this] assms(1) show ?thesis
    by (simp add: getAllCPU_def foldl_map)
qed

text \<open>
  Claim C15 (equivalence). The character loop of \<open>_isPID\<close> accepts exactly
  the non-empty strings of decimal digits.
\<close>

theorem isPID_iff_digits: "isPID s \<longleftrightarrow> s \<noteq> [] \<and> list_all is_digit s"
proof -
  have "pid_chars_ok s \<longleftrightarrow> list_all is_digit s"
  proof (induction s)
    case (Cons c cs)
    have "js_indexOf ''0123456789'' [c] < 0 \<longleftrightarrow> \<not> is_digit c"
      using js_indexOf_nonneg_iff [of "''0123456789''" "[c]"]
      by (simp only: sublist_single_iff digit_member_iff not_le [symmetric])
    with Cons show ?case by simp
  qed simp
  then show ?thesis by (simp add: isPID_def)
qed

subsection \<open>Concrete process tables\<close>

text \<open>Stat lines of an \<open>init\<close>-like process (ticks 150 + 50 + 10 + 5), a shell
  (30 + 15), and a process whose command name \<open>Web Content\<close> contains a
  blank; \<open>proc_host\<close> is a host whose \<open>/proc\<close> lists \<open>entries\<close>, with the
  rendered stat files of \<open>procs\<close> and the raw files \<open>raw\<close>.\<close>

definition node_stat :: pstat_line where
  "node_stat = \<lparr>ps_head = [''1'', ''(node)'', ''S'', ''0'', ''1'', ''1'', ''0'', ''-1'', ''4194560'',
       ''100'', ''0'', ''0'', ''0''],
     ps_utime = 150, ps_stime = 50, ps_cutime = 10, ps_cstime = 5, ps_tail = [''20'', ''0'']\<rparr>"

definition sh_stat :: pstat_line where
  "sh_stat = \<lparr>ps_head = [''42'', ''(sh)'', ''S'', ''1'', ''42'', ''42'', ''0'', ''-1'', ''4194560'',
       ''10'', ''0'', ''0'', ''0''],
     ps_utime = 30, ps_stime = 15, ps_cutime = 0, ps_cstime = 0, ps_tail = [''20'']\<rparr>"

definition web_stat :: pstat_line where
  "web_stat = \<lparr>ps_head = [''7'', ''(Web Content)'', ''S'', ''1'', ''7'', ''7'', ''0'', ''-1'', ''4194560'',
       ''100'', ''0'', ''0'', ''0''],
     ps_utime = 150, ps_stime = 50, ps_cutime = 10, ps_cstime = 5, ps_tail = [''20'']\<rparr>"

definition proc_host ::
    "(string \<times> pstat_line) list \<Rightarrow> (string \<times> string) list \<Rightarrow> string list \<Rightarrow> host" where
  "proc_host procs raw entries = \<lparr>os_type = ''Linux'', os_cpus = [], os_uptime = 0, os_totalmem = 0,
     os_freemem = 0, os_loadavg = (0, 0, 0),
     fs_files = (\<lambda>p. case find (\<lambda>(pid, st). proc_stat_path pid = p) procs of
                     Some (pid, st) \<Rightarrow> Some (render_pstat st) | None \<Rightarrow> map_of raw p),
     fs_dirs = [''/proc'' \<mapsto> entries], fs_unreadable = {}, clock_ms = 0\<rparr>"

text \<open>
  Claim C14 (code bug). The command name of a process, the second token
  \<open>(comm)\<close>, may contain a blank (\<open>(Web Content)\<close>). \<open>_getProcessCPU\<close> splits
  the whole line on blanks, so every later field moves one place right:
  for a name with one blank it reads offsets 13--16 as cmajflt, utime,
  stime and cutime, and returns \<open>cmajflt + utime + stime + cutime\<close>
  instead of \<open>utime + stime + cutime + cstime\<close>.
\<close>

theorem getProcessCPU_comm_with_blank:
  assumes "ps_head st = pid # (w1 @ CHR '' '' # w2) # mid @ [dec_string k]" "length mid = 10"
    and "list_all stat_token (pid # w1 # w2 # mid @ ps_tail st)"
    and "fs_files h p = Some (render_pstat st)"
  shows "getProcessCPU h p = Fin (real (k + ps_utime st + ps_stime st + ps_cutime st))"
proof -
  let ?ts = "pid # w1 # w2 # mid @ map dec_string [k, ps_utime st, ps_stime st, ps_cutime st, ps_cstime st]
             @ ps_tail st"
  have "render_pstat st = join_with CHR '' '' ?ts @ ''\<newline>''"
    using assms(1) join_with_split_token [of "CHR '' ''" "[pid]" w1 w2]
      join_with_split_token [of "CHR '' ''" "[pid]" w1 w2 "mid @ _"]
    by (simp add: render_pstat_def pstat_tokens_def)
  moreover have "list_all stat_token ?ts" using assms(3) by (simp add: dec_string_token)
  ultimately have "getProcessCPU h p =
    js_add (js_add (js_add (js_parseInt_opt (arr_get ?ts 13)) (js_parseInt_opt (arr_get ?ts 14)))
      (js_parseInt_opt (arr_get ?ts 15))) (js_parseInt_opt (arr_get ?ts 16))"
    using assms(4) by (intro getProcessCPU_tokens) simp_all
  then show ?thesis using assms(2) by (simp add: arr_get_conv_nth nth_append)
qed

theorem getProcessCPU_comm_with_blank_witness:
  "getProcessCPU (proc_host [(''7'', web_stat)] [] [''7'']) (proc_stat_path ''7'') = Fin 210"
  using getProcessCPU_comm_with_blank [of web_stat "''7''" "''(Web''" "''Content)''"
      "[''S'', ''1'', ''7'', ''7'', ''0'', ''-1'', ''4194560'', ''100'', ''0'', ''0'']" 0
      "proc_host [(''7'', web_stat)] [] [''7'']" "proc_stat_path ''7''"]
  by (simp add: web_stat_def proc_host_def proc_stat_path_def stat_token_def is_js_ws_def
      dec_string_eval)

theorem getAllCPU_sums_ticks_witness:
  "getAllCPU (proc_host [(''1'', node_stat), (''42'', sh_stat)] [] [''1'', ''self'', ''42'', ''77'', ''cpuinfo''])
     = Inr (Fin 260)"
proof -
  let ?h = "proc_host [(''1'', node_stat), (''42'', sh_stat)] [] [''1'', ''self'', ''42'', ''77'', ''cpuinfo'']"
  let ?t = "map_of [(''1'', node_stat), (''42'', sh_stat)]"
  have "getAllCPU ?h = Inr (Fin (real (\<Sum>pid \<leftarrow> filter isPID [''1'', ''self'', ''42'', ''77'', ''cpuinfo''].
           case ?t pid of None \<Rightarrow> 0 | Some st \<Rightarrow> pstat_ticks st)))"
  proof (rule getAllCPU_sums_ticks)
    show "fs_dirs ?h ''/proc'' = Some [''1'', ''self'', ''42'', ''77'', ''cpuinfo'']"
      by (simp add: proc_host_def)
    show "\<forall>pid \<in> set [''1'', ''self'', ''42'', ''77'', ''cpuinfo'']. isPID pid \<longrightarrow>
        fs_files ?h (proc_stat_path pid) = map_option render_pstat (?t pid)"
      by (simp add: proc_host_def proc_stat_path_def)
    show "\<forall>pid st. ?t pid = Some st \<longrightarrow> wf_pstat st"
      by (simp add: wf_pstat_def stat_token_def node_stat_def sh_stat_def is_js_ws_def)
  qed
  then show ?thesis
    by (simp add: isPID_iff_digits is_digit_def pstat_ticks_def node_stat_def sh_stat_def)
qed

theorem getAllCPU_short_stat_NaN_witness:
  "getAllCPU (proc_host [(''1'', node_stat)] [(''/proc/5/stat'', ''5 (x) Z\<newline>'')] [''1'', ''5''])
     = Inr NaN"
proof (rule getAllCPU_short_stat_NaN)
  show "fs_dirs (proc_host [(''1'', node_stat)] [(''/proc/5/stat'', ''5 (x) Z\<newline>'')] [''1'', ''5''])
      ''/proc'' = Some [''1'', ''5'']"
    by (simp add: proc_host_def)
  show "fs_files (proc_host [(''1'', node_stat)] [(''/proc/5/stat'', ''5 (x) Z\<newline>'')] [''1'', ''5''])
      (proc_stat_path ''5'') = Some ''5 (x) Z\<newline>''"
    by (simp add: proc_host_def proc_stat_path_def)
  show "length (split_on CHR '' '' (js_trim ''5 (x) Z\<newline>'')) \<le> 16"
    by (simp add: js_trim_def is_js_ws_def)
qed (simp_all add: isPID_iff_digits is_digit_def)

end
