(* ===== verification/CPU_Estimator.thy ===== *)
theory CPU_Estimator
  imports Env_Detect Docker_Quota Proc_CPU
begin

text \<open>
  CPU Utilization Estimator of \<open>src/lib/orders/system.js\<close>, the stateful
  core. The module-level variables \<open>lastTotal\<close>, \<open>lastIdle\<close> (lines 7--8),
  \<open>last_used\<close> and \<open>last_sys\<close> (lines 153--154) are the record
  \<open>cpu_state\<close>; every operation takes the state and returns its result with
  the state after the call. The result is \<open>Inl\<close> when an exception escapes
  (the state returned is then the one at the throw).
  \<^item> \<open>calculateLinuxCPU\<close> (lines 21--49): the aggregate \<open>cpu \<close> line of
    \<open>/proc/stat\<close>, busy fraction \<open>1 - diffIdle / diffTotal\<close>;
  \<^item> \<open>calculateCPU\<close> (lines 169--185): the same over \<open>os.cpus()\<close>;
  \<^item> \<open>calculateDockerCPU\<close> (lines 156--166): ticks of all processes against
    wall-clock milliseconds, divided by the allotted CPU share;
  \<^item> \<open>getSystemCPU\<close> (lines 187--203): the dispatch, which repeats the body of
    \<open>calculateDockerCPU\<close> inline for the container case;
  \<^item> \<open>module_init\<close> (lines 7--8, 153--154): the state at module load.
\<close>

record cpu_state =
  lastTotal :: jsnum
  lastIdle :: jsnum
  last_used :: jsnum
  last_sys :: jsnum

text \<open>Line 154 tests the function object \<open>isInDocker\<close>, not its result, so
  \<open>last_sys\<close> is always the load-time clock.\<close>

definition module_init :: "host \<Rightarrow> cpu_state js_result" where
  "module_init h =
     js_bind (if isInDocker h then getAllCPU h else Inr (Fin 0)) (\<lambda>used.
       Inr \<lparr>lastTotal = Fin 0, lastIdle = Fin 0, last_used = used,
            last_sys = Fin (real_of_int (clock_ms h))\<rparr>)"

text \<open>\<open>calculateLinuxCPU\<close>. The guard \<open>if (!raw)\<close> tests a \<open>Buffer\<close>, which
  is always truthy, so it never returns there and is omitted.\<close>

definition calculateLinuxCPU :: "host \<Rightarrow> cpu_state \<Rightarrow> jsnum js_result \<times> cpu_state" where
  "calculateLinuxCPU h s =
     (case fs_readFileSync h ''/proc/stat'' of
        Inl err \<Rightarrow> (Inl err, s)
      | Inr raw \<Rightarrow>
          (case find (\<lambda>l. 0 \<le> js_indexOf l ''cpu '') (split_on CHR 0x0A (js_trim raw)) of
             None \<Rightarrow> (Inr (Fin 0), s)
           | Some line \<Rightarrow>
               (let stat = drop 2 (split_on CHR '' '' line);
                    fld = (\<lambda>j. js_parseInt_opt (arr_get stat j));
                    idle = js_add (js_add (fld 3) (fld 4)) (fld 7);
                    total = foldl (\<lambda>t j. js_add t (fld j)) (Fin 0) [0..<8];
                    diffTotal = js_sub total (lastTotal s);
                    diffIdle = js_sub idle (lastIdle s)
                in (Inr (js_sub (Fin 1) (js_div diffIdle diffTotal)),
                    s\<lparr>lastTotal := total, lastIdle := idle\<rparr>))))"

definition calculateCPU :: "host \<Rightarrow> cpu_state \<Rightarrow> jsnum js_result \<times> cpu_state" where
  "calculateCPU h s =
     (let (total, idle) =
        foldl (\<lambda>(total, idle) time.
                 (js_add total (js_add (js_add (js_add (Fin (real (t_user time)))
                    (Fin (real (t_nice time)))) (Fin (real (t_sys time)))) (Fin (real (t_idle time)))),
                  js_add idle (Fin (real (t_idle time)))))
          (Fin 0, Fin 0) (os_cpus h);
          diffTotal = js_sub total (lastTotal s);
          diffIdle = js_sub idle (lastIdle s)
      in (Inr (js_sub (Fin 1) (js_div diffIdle diffTotal)),
          s\<lparr>lastTotal := total, lastIdle := idle\<rparr>))"

definition calculateDockerCPU :: "host \<Rightarrow> cpu_state \<Rightarrow> jsnum js_result \<times> cpu_state" where
  "calculateDockerCPU h s =
     (case getAllCPU h of
        Inl err \<Rightarrow> (Inl err, s)
      | Inr now_used \<Rightarrow>
          (let now_sys = Fin (real_of_int (clock_ms h));
               diff_used = js_mul (js_sub now_used (last_used s)) (Fin 10);
               diff_sys = js_sub now_sys (last_sys s);
               s' = s\<lparr>last_used := now_used, last_sys := now_sys\<rparr>
           in (js_bind (getDockerCPUs h) (\<lambda>cpus. Inr (js_div (js_div diff_used diff_sys) cpus)),
               s')))"

definition getSystemCPU :: "host \<Rightarrow> cpu_state \<Rightarrow> jsnum js_result \<times> cpu_state" where
  "getSystemCPU h s =
     (if isInDocker h then
        (case getAllCPU h of
           Inl err \<Rightarrow> (Inl err, s)
         | Inr now_used \<Rightarrow>
             (let now_sys = Fin (real_of_int (clock_ms h));
                  diff_used = js_mul (js_sub now_used (last_used s)) (Fin 10);
                  diff_sys = js_sub now_sys (last_sys s);
                  s' = s\<lparr>last_used := now_used, last_sys := now_sys\<rparr>
              in (js_bind (getDockerCPUs h) (\<lambda>cpus. Inr (js_div (js_div diff_used diff_sys) cpus)),
                  s')))
      else if is_linux h then calculateLinuxCPU h s
      else calculateCPU h s)"

lemma getSystemCPU_dispatch:
  "getSystemCPU h s =
     (if isInDocker h then calculateDockerCPU h s
      else if is_linux h then calculateLinuxCPU h s
      else calculateCPU h s)"
  unfolding getSystemCPU_def calculateDockerCPU_def by simp

section \<open>Abstract view of the Linux host counters\<close>

text \<open>
  The aggregate line of \<open>/proc/stat\<close> as the kernel prints it: \<open>cpu\<close>, two
  blanks, then the ten counters of \<open>cpu_breakdown\<close> separated by one blank.
  \<open>idle_total\<close> and \<open>grand_total\<close> are the two sums of \<open>calculateLinuxCPU\<close>
  (idle + iowait + steal; the first eight buckets), and \<open>cpu_busy\<close> the
  specified busy fraction of an interval between two samples.
\<close>

record cpu_breakdown =
  b_user :: nat
  b_nice :: nat
  b_system :: nat
  b_idle :: nat
  b_iowait :: nat
  b_irq :: nat
  b_softirq :: nat
  b_steal :: nat
  b_guest :: nat
  b_guest_nice :: nat

definition breakdown_fields :: "cpu_breakdown \<Rightarrow> nat list" where
  "breakdown_fields b = [b_user b, b_nice b, b_system b, b_idle b, b_iowait b, b_irq b,
     b_softirq b, b_steal b, b_guest b, b_guest_nice b]"

definition stat_cpu_line :: "cpu_breakdown \<Rightarrow> string" where
  "stat_cpu_line b = ''cpu '' @ CHR '' '' # join_with CHR '' '' (map dec_string (breakdown_fields b))"

definition idle_total :: "cpu_breakdown \<Rightarrow> nat" where
  "idle_total b = b_idle b + b_iowait b + b_steal b"

definition grand_total :: "cpu_breakdown \<Rightarrow> nat" where
  "grand_total b = b_user b + b_nice b + b_system b + b_idle b + b_iowait b + b_irq b
     + b_softirq b + b_steal b"

lemma length_breakdown_fields [simp]: "length (breakdown_fields b) = 10"
  by (simp add: breakdown_fields_def)

lemma stat_cpu_line_split:
  "split_on CHR '' '' (stat_cpu_line b) = ''cpu'' # [] # map dec_string (breakdown_fields b)"
proof -
  have sp: "is_js_ws CHR '' ''" by (simp add: is_js_ws_def)
  have "\<forall>w \<in> set (map dec_string (breakdown_fields b)). CHR '' '' \<notin> set w"
    using dec_string_no_ws sp by fastforce
  then have "split_on CHR '' '' (join_with CHR '' '' (map dec_string (breakdown_fields b)))
      = map dec_string (breakdown_fields b)"
    by (intro split_on_join_with) (auto simp flip: length_0_conv)
  then show ?thesis
    by (simp add: stat_cpu_line_def split_on_append_sep [of _ "''cpu''", simplified] Let_def)
qed

lemma stat_cpu_line_shape:
  "stat_cpu_line b \<noteq> []" "\<not> is_js_ws (hd (stat_cpu_line b))"
  "\<not> is_js_ws (last (stat_cpu_line b))" "CHR 0x0A \<notin> set (stat_cpu_line b)"
  "0 \<le> js_indexOf (stat_cpu_line b) ''cpu ''"
proof -
  show "stat_cpu_line b \<noteq> []" "\<not> is_js_ws (hd (stat_cpu_line b))"
    by (simp_all add: stat_cpu_line_def is_js_ws_def)
  have "last (stat_cpu_line b) = last (dec_string (b_guest_nice b))"
    by (simp add: stat_cpu_line_def breakdown_fields_def last_append)
  then show "\<not> is_js_ws (last (stat_cpu_line b))"
    by (simp add: dec_string_last)
  have "\<forall>c \<in> set (stat_cpu_line b). c \<noteq> CHR 0x0A"
    using set_join_with [of "CHR '' ''" "map dec_string (breakdown_fields b)"]
      dec_string_no_ws
    by (fastforce simp: stat_cpu_line_def is_js_ws_def)
  then show "CHR 0x0A \<notin> set (stat_cpu_line b)" by blast
  have "prefix ''cpu '' (stat_cpu_line b)"
    by (simp add: stat_cpu_line_def)
  then show "0 \<le> js_indexOf (stat_cpu_line b) ''cpu ''"
    by (simp add: js_indexOf_nonneg_iff)
qed

lemma upt_8: "[0..<8] = [0, 1, 2, 3, 4, 5, 6, 7::nat]"
  by code_simp

lemma calculateLinuxCPU_stat:
  assumes stat_file: "fs_files h ''/proc/stat'' = Some (stat_cpu_line b @ r0)"
    and r0: "r0 = [] \<or> hd r0 = CHR 0x0A"
  shows "calculateLinuxCPU h s =
    (Inr (js_sub (Fin 1) (js_div (js_sub (Fin (real (idle_total b))) (lastIdle s))
                                 (js_sub (Fin (real (grand_total b))) (lastTotal s)))),
     s\<lparr>lastTotal := Fin (real (grand_total b)), lastIdle := Fin (real (idle_total b))\<rparr>)"
proof -
  have nl: "is_js_ws (CHR 0x0A)" by (simp add: is_js_ws_def)
  obtain ls where lines: "split_on CHR 0x0A (js_trim (stat_cpu_line b @ r0)) = stat_cpu_line b # ls"
    using js_trim_first_line [OF stat_cpu_line_shape(1-4) nl r0] by blast
  let ?fld = "\<lambda>j. js_parseInt_opt (arr_get (drop 2 (split_on CHR '' '' (stat_cpu_line b))) j)"
  have fld: "j < 10 \<Longrightarrow> ?fld j = Fin (real (breakdown_fields b ! j))" for j
    by (simp add: stat_cpu_line_split arr_get_conv_nth)
  have idle: "js_add (js_add (?fld 3) (?fld 4)) (?fld 7) = Fin (real (idle_total b))"
    by (simp add: fld breakdown_fields_def idle_total_def)
  have total: "foldl (\<lambda>t j. js_add t (?fld j)) (Fin 0) [0..<8] = Fin (real (grand_total b))"
    by (simp add: upt_8 fld breakdown_fields_def grand_total_def)
  show ?thesis
    unfolding calculateLinuxCPU_def
    using stat_file lines stat_cpu_line_shape(5) idle total
    by (simp add: Let_def)
qed

definition cpu_busy :: "cpu_breakdown \<Rightarrow> cpu_breakdown \<Rightarrow> real" where
  "cpu_busy prev cur =
     1 - (real (idle_total cur) - real (idle_total prev))
         / (real (grand_total cur) - real (grand_total prev))"

definition breakdown_le :: "cpu_breakdown \<Rightarrow> cpu_breakdown \<Rightarrow> bool" where
  "breakdown_le p c \<longleftrightarrow> list_all2 (\<le>) (breakdown_fields p) (breakdown_fields c)"

text \<open>The state abstracts a sample \<open>b\<close> when it holds \<open>b\<close>'s two sums;
  \<open>breakdown_le\<close> says that no counter went backwards.\<close>

definition linux_state_of :: "cpu_breakdown \<Rightarrow> cpu_state \<Rightarrow> bool" where
  "linux_state_of b s \<longleftrightarrow>
     lastTotal s = Fin (real (grand_total b)) \<and> lastIdle s = Fin (real (idle_total b))"

text \<open>The agent calls the probe again and again: \<open>cpu_run\<close> threads the
  estimator state through \<open>getSystemCPU\<close> over the hosts of successive calls.\<close>

fun cpu_run :: "host list \<Rightarrow> cpu_state \<Rightarrow> jsnum js_result list \<times> cpu_state" where
  "cpu_run [] s = ([], s)"
| "cpu_run (h # hs) s =
     (let (r, s') = getSystemCPU h s; (rs, s'') = cpu_run hs s' in (r # rs, s''))"

definition proc_stat_shows :: "host \<Rightarrow> cpu_breakdown \<Rightarrow> bool" where
  "proc_stat_shows h b \<longleftrightarrow>
     (\<exists>r0. fs_files h ''/proc/stat'' = Some (stat_cpu_line b @ r0) \<and> (r0 = [] \<or> hd r0 = CHR 0x0A))"

definition zero_breakdown :: cpu_breakdown where
  "zero_breakdown = \<lparr>b_user = 0, b_nice = 0, b_system = 0, b_idle = 0, b_iowait = 0, b_irq = 0,
     b_softirq = 0, b_steal = 0, b_guest = 0, b_guest_nice = 0\<rparr>"

text \<open>The generic host (not Linux): \<open>cpus_total\<close> and \<open>cpus_idle\<close> are the two
  sums of \<open>calculateCPU\<close> over \<open>os.cpus()\<close>, \<open>generic_state_of\<close> the state
  that holds them, \<open>cpu_times_le\<close> counters that did not go backwards.\<close>

definition cpus_total :: "cpu_times list \<Rightarrow> nat" where
  "cpus_total cs = sum_list (map (\<lambda>t. t_user t + t_nice t + t_sys t + t_idle t) cs)"

definition cpus_idle :: "cpu_times list \<Rightarrow> nat" where
  "cpus_idle cs = sum_list (map t_idle cs)"

definition cpu_times_le :: "cpu_times \<Rightarrow> cpu_times \<Rightarrow> bool" where
  "cpu_times_le a b \<longleftrightarrow>
     t_user a \<le> t_user b \<and> t_nice a \<le> t_nice b \<and> t_sys a \<le> t_sys b \<and> t_idle a \<le> t_idle b"

definition generic_state_of :: "cpu_times list \<Rightarrow> cpu_state \<Rightarrow> bool" where
  "generic_state_of cs s \<longleftrightarrow>
     lastTotal s = Fin (real (cpus_total cs)) \<and> lastIdle s = Fin (real (cpus_idle cs))"

lemma breakdown_le_iff:
  "breakdown_le p c \<longleftrightarrow>
     b_user p \<le> b_user c \<and> b_nice p \<le> b_nice c \<and> b_system p \<le> b_system c \<and>
     b_idle p \<le> b_idle c \<and> b_iowait p \<le> b_iowait c \<and> b_irq p \<le> b_irq c \<and>
     b_softirq p \<le> b_softirq c \<and> b_steal p \<le> b_steal c \<and> b_guest p \<le> b_guest c \<and>
     b_guest_nice p \<le> b_guest_nice c"
  by (simp add: breakdown_le_def breakdown_fields_def)

lemma cpu_busy_bounds:
  assumes "breakdown_le prev cur" "grand_total prev < grand_total cur"
  shows "0 \<le> cpu_busy prev cur \<and> cpu_busy prev cur \<le> 1"
proof -
  let ?di = "real (idle_total cur) - real (idle_total prev)"
  let ?dt = "real (grand_total cur) - real (grand_total prev)"
  have dt: "0 < ?dt" using assms(2) by simp
  have "0 \<le> ?di" "?di \<le> ?dt"
    using assms(1) by (auto simp: breakdown_le_iff idle_total_def grand_total_def)
  with dt have "0 \<le> ?di / ?dt" "?di / ?dt \<le> 1"
    by simp_all
  then show ?thesis by (simp add: cpu_busy_def)
qed

lemma linux_sample_result:
  assumes "linux_state_of prev s"
    and "fs_files h ''/proc/stat'' = Some (stat_cpu_line cur @ r0)" "r0 = [] \<or> hd r0 = CHR 0x0A"
    and "grand_total prev \<noteq> grand_total cur"
  shows "calculateLinuxCPU h s =
     (Inr (Fin (cpu_busy prev cur)),
      s\<lparr>lastTotal := Fin (real (grand_total cur)), lastIdle := Fin (real (idle_total cur))\<rparr>)"
proof -
  have "real (grand_total cur) - real (grand_total prev) \<noteq> 0"
    using assms(4) by simp
  then show ?thesis
    using calculateLinuxCPU_stat [OF assms(2,3)] assms(1)
    by (simp add: linux_state_of_def cpu_busy_def)
qed

lemma linux_host_step:
  assumes "linux_state_of prev s" "\<not> isInDocker h" "is_linux h" "proc_stat_shows h cur"
    and "breakdown_le prev cur" "grand_total prev < grand_total cur"
  shows "\<exists>x. fst (getSystemCPU h s) = Inr (Fin x) \<and> 0 \<le> x \<and> x \<le> 1 \<and>
           linux_state_of cur (snd (getSystemCPU h s))"
proof -
  obtain r0 where f: "fs_files h ''/proc/stat'' = Some (stat_cpu_line cur @ r0)"
      and r0: "r0 = [] \<or> hd r0 = CHR 0x0A"
    using assms(4) by (auto simp: proc_stat_shows_def)
  have ne: "grand_total prev \<noteq> grand_total cur" using assms(6) by simp
  show ?thesis
    using linux_sample_result [OF assms(1) f r0 ne] cpu_busy_bounds [OF assms(5,6)] assms(2,3)
    by (simp add: getSystemCPU_dispatch linux_state_of_def)
qed

lemma calculateDockerCPU_share:
  assumes "getAllCPU h = Inr (Fin u)" "last_used s = Fin u0" "last_sys s = Fin t0"
    and "t0 \<noteq> real_of_int (clock_ms h)" "getDockerCPUs h = Inr (Fin c)" "c \<noteq> 0"
  shows "calculateDockerCPU h s =
    (Inr (Fin ((u - u0) * 10 / (real_of_int (clock_ms h) - t0) / c)),
     s\<lparr>last_used := Fin u, last_sys := Fin (real_of_int (clock_ms h))\<rparr>)"
proof -
  have "real_of_int (clock_ms h) - t0 \<noteq> 0" using assms(4) by simp
  then show ?thesis
    using assms(1-3,5,6) by (simp add: calculateDockerCPU_def Let_def)
qed

lemma calculateCPU_fold:
  "foldl (\<lambda>(total, idle) time.
      (js_add total (js_add (js_add (js_add (Fin (real (t_user time)))
         (Fin (real (t_nice time)))) (Fin (real (t_sys time)))) (Fin (real (t_idle time)))),
       js_add idle (Fin (real (t_idle time)))))
     (Fin a, Fin b) cs = (Fin (a + real (cpus_total cs)), Fin (b + real (cpus_idle cs)))"
  by (induction cs arbitrary: a b) (simp_all add: cpus_total_def cpus_idle_def algebra_simps)

lemma calculateCPU_eq:
  "calculateCPU h s =
     (Inr (js_sub (Fin 1) (js_div (js_sub (Fin (real (cpus_idle (os_cpus h)))) (lastIdle s))
                                  (js_sub (Fin (real (cpus_total (os_cpus h)))) (lastTotal s)))),
      s\<lparr>lastTotal := Fin (real (cpus_total (os_cpus h))), lastIdle := Fin (real (cpus_idle (os_cpus h)))\<rparr>)"
  unfolding calculateCPU_def using calculateCPU_fold [of 0 0 "os_cpus h"] by simp

lemma cpus_le_deltas:
  "list_all2 cpu_times_le p c \<Longrightarrow>
     cpus_idle p \<le> cpus_idle c \<and> cpus_total p - cpus_idle p \<le> cpus_total c - cpus_idle c
     \<and> cpus_idle p \<le> cpus_total p \<and> cpus_idle c \<le> cpus_total c"
  by (induction rule: list_all2_induct) (auto simp: cpus_total_def cpus_idle_def cpu_times_le_def)

lemma cpu_state_self_update:
  "\<exists>tot idl. s = s\<lparr>lastTotal := tot, lastIdle := idl\<rparr>"
  "\<exists>u t. s = s\<lparr>last_used := u, last_sys := t\<rparr>"
  by (rule exI [of _ "lastTotal s"], rule exI [of _ "lastIdle s"], simp)
     (rule exI [of _ "last_used s"], rule exI [of _ "last_sys s"], simp)

lemma getSystemCPU_container_state:
  "isInDocker h \<Longrightarrow> getAllCPU h = Inr u \<Longrightarrow>
   snd (getSystemCPU h s) = s\<lparr>last_used := u, last_sys := Fin (real_of_int (clock_ms h))\<rparr>"
  by (simp add: getSystemCPU_def Let_def)

lemma getSystemCPU_last_sys_frame:
  "\<not> isInDocker h \<Longrightarrow>
   getSystemCPU h (s\<lparr>last_sys := t\<rparr>) = (fst (getSystemCPU h s), (snd (getSystemCPU h s))\<lparr>last_sys := t\<rparr>)"
  by (simp add: getSystemCPU_dispatch calculateLinuxCPU_def calculateCPU_def Let_def
      split: sum.split option.split prod.split)

lemma module_init_counters:
  "module_init h0 = Inr s0 \<Longrightarrow> linux_state_of zero_breakdown s0"
  by (auto simp: module_init_def js_bind_eq_Inr linux_state_of_def zero_breakdown_def
      idle_total_def grand_total_def)

text \<open>
  Claim C1 (refinement). In Linux host mode, when the state holds the sums of
  a previous sample \<open>prev\<close> and \<open>/proc/stat\<close> starts with the aggregate line
  of a sample \<open>cur\<close> whose total differs, \<open>calculateLinuxCPU\<close> returns the
  specified busy fraction \<open>1 - (idle delta) / (total delta)\<close> of the interval
  and stores the sums of \<open>cur\<close>, replacing those of \<open>prev\<close>.
\<close>

theorem calculateLinuxCPU_refines:
  assumes "linux_state_of prev s"
    and "fs_files h ''/proc/stat'' = Some (stat_cpu_line cur @ r0)" "r0 = [] \<or> hd r0 = CHR 0x0A"
    and "grand_total prev \<noteq> grand_total cur"
  shows "fst (calculateLinuxCPU h s) = Inr (Fin (cpu_busy prev cur)) \<and>
         linux_state_of cur (snd (calculateLinuxCPU h s))"
  using linux_sample_result [OF assms] by (simp add: linux_state_of_def)

text \<open>
  Claim C2 (bounds). When every counter of the aggregate line is at least its
  previous value and the total grew, the busy fraction \<open>calculateLinuxCPU\<close>
  returns is a finite number in [0, 1].
\<close>

theorem calculateLinuxCPU_in_unit_interval:
  assumes "linux_state_of prev s"
    and "fs_files h ''/proc/stat'' = Some (stat_cpu_line cur @ r0)" "r0 = [] \<or> hd r0 = CHR 0x0A"
    and "breakdown_le prev cur" "grand_total prev < grand_total cur"
  shows "\<exists>x. fst (calculateLinuxCPU h s) = Inr (Fin x) \<and> 0 \<le> x \<and> x \<le> 1"
  using linux_sample_result [OF assms(1-3)] cpu_busy_bounds [OF assms(4,5)] assms(5)
  by simp

text \<open>
  Claim C3 (bounds over a run). From a state that holds the sums of a sample
  (the initial zeros included), a sequence of calls of \<open>getSystemCPU\<close> on
  Linux hosts outside a container, whose \<open>/proc/stat\<close> samples are monotone
  with a growing total, returns a finite busy fraction in [0, 1] at every call,
  the first one (measured since boot) included.
\<close>

theorem linux_run_in_unit_interval:
  assumes "linux_state_of bfirst s"
    and "list_all2 (\<lambda>h b. \<not> isInDocker h \<and> is_linux h \<and> proc_stat_shows h b) hs bs"
    and "successively (\<lambda>p c. breakdown_le p c \<and> grand_total p < grand_total c) (bfirst # bs)"
  shows "\<forall>r \<in> set (fst (cpu_run hs s)). \<exists>x. r = Inr (Fin x) \<and> 0 \<le> x \<and> x \<le> 1"
  using assms
proof (induction hs arbitrary: bs bfirst s)
  case Nil
  then show ?case by simp
next
  case (Cons h hs)
  then obtain b bs' where bs: "bs = b # bs'" by (cases bs) auto
  with Cons.prems obtain x where
    x: "fst (getSystemCPU h s) = Inr (Fin x)" "0 \<le> x" "x \<le> 1"
      "linux_state_of b (snd (getSystemCPU h s))"
    using linux_host_step [of bfirst s h b] by auto
  have "\<forall>r \<in> set (fst (cpu_run hs (snd (getSystemCPU h s)))). \<exists>x. r = Inr (Fin x) \<and> 0 \<le> x \<and> x \<le> 1"
    using Cons.IH [OF x(4), of bs'] Cons.prems(2,3) bs by simp
  with x show ?case
    by (simp add: split_def Let_def)
qed

text \<open>
  Claim C4 (functional, container mode). Inside a container, \<open>getSystemCPU\<close>
  runs its inline copy of \<open>calculateDockerCPU\<close>: with the process ticks \<open>u\<close>,
  the clock and the allotted share \<open>c\<close>, it returns
  \<open>(u - last_used) * 10 / (now - last_sys) / c\<close> and stores \<open>u\<close> and \<open>now\<close>.
\<close>

theorem getSystemCPU_container:
  assumes "isInDocker h" "getAllCPU h = Inr (Fin u)" "last_used s = Fin u0" "last_sys s = Fin t0"
    and "t0 \<noteq> real_of_int (clock_ms h)" "getDockerCPUs h = Inr (Fin c)" "c \<noteq> 0"
  shows "getSystemCPU h s =
    (Inr (Fin ((u - u0) * 10 / (real_of_int (clock_ms h) - t0) / c)),
     s\<lparr>last_used := Fin u, last_sys := Fin (real_of_int (clock_ms h))\<rparr>)"
  using calculateDockerCPU_share [OF assms(2-7)] assms(1) by (simp add: getSystemCPU_dispatch)

text \<open>
  Claim C5 (bounds, generic host). On a host that is not Linux, when the
  state holds the sums of the previous \<open>os.cpus()\<close> reading, no counter went
  backwards and the total grew, \<open>calculateCPU\<close> returns a finite fraction in
  [0, 1] and stores the sums of the new reading.
\<close>

theorem calculateCPU_in_unit_interval:
  assumes "generic_state_of prev s" "list_all2 cpu_times_le prev (os_cpus h)"
    and "cpus_total prev < cpus_total (os_cpus h)"
  shows "\<exists>x. fst (calculateCPU h s) = Inr (Fin x) \<and> 0 \<le> x \<and> x \<le> 1 \<and>
           generic_state_of (os_cpus h) (snd (calculateCPU h s))"
proof -
  let ?di = "real (cpus_idle (os_cpus h)) - real (cpus_idle prev)"
  let ?dt = "real (cpus_total (os_cpus h)) - real (cpus_total prev)"
  have dt: "0 < ?dt" using assms(3) by simp
  have "0 \<le> ?di" "?di \<le> ?dt"
    using cpus_le_deltas [OF assms(2)] by linarith+
  with dt have "0 \<le> 1 - ?di / ?dt" "1 - ?di / ?dt \<le> 1"
    by (simp_all add: divide_le_eq_1)
  with dt show ?thesis
    using assms(1) by (simp add: calculateCPU_eq generic_state_of_def)
qed

text \<open>
  Claim C6 (frame). One call of \<open>getSystemCPU\<close> writes only the state of
  the variant it runs: inside a container \<open>last_used\<close> and \<open>last_sys\<close>,
  elsewhere \<open>lastTotal\<close> and \<open>lastIdle\<close>; the other pair is left as it was.
\<close>

theorem getSystemCPU_frame:
  "\<exists>u t tot idl. snd (getSystemCPU h s) =
     (if isInDocker h then s\<lparr>last_used := u, last_sys := t\<rparr>
      else s\<lparr>lastTotal := tot, lastIdle := idl\<rparr>)"
proof (cases "isInDocker h")
  case True
  have "\<exists>u t. snd (calculateDockerCPU h s) = s\<lparr>last_used := u, last_sys := t\<rparr>"
    by (auto simp: calculateDockerCPU_def Let_def cpu_state_self_update split: sum.split)
  with True show ?thesis
    by (simp add: getSystemCPU_dispatch)
next
  case False
  have "\<exists>tot idl. snd (calculateLinuxCPU h s) = s\<lparr>lastTotal := tot, lastIdle := idl\<rparr>"
    by (auto simp: calculateLinuxCPU_def Let_def cpu_state_self_update split: sum.split option.split)
  moreover have "\<exists>tot idl. snd (calculateCPU h s) = s\<lparr>lastTotal := tot, lastIdle := idl\<rparr>"
    by (auto simp: calculateCPU_eq)
  ultimately show ?thesis
    using False by (simp add: getSystemCPU_dispatch)
qed

text \<open>
  Claim C7 (error path, degenerate interval). When \<open>/proc/stat\<close> shows the
  very counters the state holds (no tick elapsed between two calls),
  \<open>calculateLinuxCPU\<close> divides \<open>0 / 0\<close> and returns \<open>NaN\<close>: nothing guards
  the division by a zero elapsed total.
\<close>

theorem calculateLinuxCPU_no_elapsed_NaN:
  assumes "linux_state_of b s"
    and "fs_files h ''/proc/stat'' = Some (stat_cpu_line b @ r0)" "r0 = [] \<or> hd r0 = CHR 0x0A"
  shows "calculateLinuxCPU h s = (Inr NaN, s)"
  using calculateLinuxCPU_stat [OF assms(2,3)] assms(1)
  by (simp add: linux_state_of_def)

subsection \<open>Concrete samples\<close>

text \<open>The aggregate line of the comment in \<open>system.js\<close> (lines 11--12), the
  same after an interval of 1000 idle ticks, and a Linux host that shows a
  sample in \<open>/proc/stat\<close>, followed by a per-CPU line.\<close>

definition sample_b0 :: cpu_breakdown where
  "sample_b0 = \<lparr>b_user = 74608, b_nice = 2520, b_system = 24433, b_idle = 1117073,
     b_iowait = 6176, b_irq = 4054, b_softirq = 0, b_steal = 0, b_guest = 0, b_guest_nice = 0\<rparr>"

definition sample_idle :: cpu_breakdown where
  "sample_idle = sample_b0\<lparr>b_idle := 1118073\<rparr>"

definition sample_busy :: cpu_breakdown where
  "sample_busy = sample_b0\<lparr>b_user := 75608\<rparr>"

definition stat_host :: "cpu_breakdown \<Rightarrow> host" where
  "stat_host b = \<lparr>os_type = ''Linux'', os_cpus = [], os_uptime = 0, os_totalmem = 0,
     os_freemem = 0, os_loadavg = (0, 0, 0),
     fs_files = (\<lambda>p. if p = ''/proc/stat'' then Some (stat_cpu_line b @ ''\<newline>cpu0 1 2 3\<newline>'') else None),
     fs_dirs = (\<lambda>p. None), fs_unreadable = {}, clock_ms = 0\<rparr>"

definition state_of :: "cpu_breakdown \<Rightarrow> cpu_state" where
  "state_of b = \<lparr>lastTotal = Fin (real (grand_total b)), lastIdle = Fin (real (idle_total b)),
     last_used = Fin 0, last_sys = Fin 0\<rparr>"

definition init_state :: cpu_state where
  "init_state = \<lparr>lastTotal = Fin 0, lastIdle = Fin 0, last_used = Fin 0, last_sys = Fin 0\<rparr>"

text \<open>A container with two live processes (ticks 215 and 45), a vanished one
  (\<open>77\<close>), two non-process entries, and a quota of 1.5 CPUs; and a generic
  (non-Linux) host with two CPUs, with an earlier reading of the same CPUs.\<close>

definition docker_host :: host where
  "docker_host = \<lparr>os_type = ''Linux'',
     os_cpus = replicate 4 \<lparr>t_user = 0, t_nice = 0, t_sys = 0, t_idle = 0, t_irq = 0\<rparr>,
     os_uptime = 0, os_totalmem = 0, os_freemem = 0, os_loadavg = (0, 0, 0),
     fs_files = [''/proc/self/cgroup'' \<mapsto> ''12:devices:/docker/3f2a\<newline>11:cpu,cpuacct:/docker/3f2a\<newline>'',
                 ''/proc/1/stat'' \<mapsto> ''1 (node) S 0 1 1 0 -1 4194560 100 0 0 0 150 50 10 5 20\<newline>'',
                 ''/proc/42/stat'' \<mapsto> ''42 (sh) S 1 42 42 0 -1 4194560 10 0 0 0 30 15 0 0 20\<newline>'',
                 cfs_quota_path \<mapsto> ''150000\<newline>'', cfs_period_path \<mapsto> ''100000\<newline>''],
     fs_dirs = [''/proc'' \<mapsto> [''1'', ''42'', ''self'', ''77'', ''cpuinfo'']],
     fs_unreadable = {}, clock_ms = 1000\<rparr>"

definition generic_prev :: "cpu_times list" where
  "generic_prev = [\<lparr>t_user = 100, t_nice = 0, t_sys = 50, t_idle = 350, t_irq = 0\<rparr>,
                   \<lparr>t_user = 100, t_nice = 0, t_sys = 50, t_idle = 350, t_irq = 0\<rparr>]"

definition generic_host :: host where
  "generic_host = \<lparr>os_type = ''Darwin'',
     os_cpus = [\<lparr>t_user = 300, t_nice = 0, t_sys = 100, t_idle = 600, t_irq = 5\<rparr>,
                \<lparr>t_user = 200, t_nice = 0, t_sys = 100, t_idle = 700, t_irq = 5\<rparr>],
     os_uptime = 0, os_totalmem = 0, os_freemem = 0, os_loadavg = (0, 0, 0),
     fs_files = Map.empty, fs_dirs = Map.empty, fs_unreadable = {}, clock_ms = 0\<rparr>"

theorem calculateLinuxCPU_refines_witness:
  "fst (calculateLinuxCPU (stat_host sample_idle) (state_of sample_b0)) = Inr (Fin 0)"
proof -
  have "linux_state_of sample_b0 (state_of sample_b0)"
    by (simp add: linux_state_of_def state_of_def)
  moreover have "fs_files (stat_host sample_idle) ''/proc/stat''
      = Some (stat_cpu_line sample_idle @ ''\<newline>cpu0 1 2 3\<newline>'')"
    by (simp add: stat_host_def)
  moreover have "grand_total sample_b0 \<noteq> grand_total sample_idle"
    by (simp add: grand_total_def sample_b0_def sample_idle_def)
  ultimately have "fst (calculateLinuxCPU (stat_host sample_idle) (state_of sample_b0))
      = Inr (Fin (cpu_busy sample_b0 sample_idle))"
    using calculateLinuxCPU_refines by simp
  then show ?thesis
    by (simp add: cpu_busy_def idle_total_def grand_total_def sample_b0_def sample_idle_def)
qed

theorem calculateLinuxCPU_in_unit_interval_witness:
  "\<exists>x. fst (calculateLinuxCPU (stat_host sample_busy) (state_of sample_b0)) = Inr (Fin x)
     \<and> 0 \<le> x \<and> x \<le> 1"
proof (rule calculateLinuxCPU_in_unit_interval)
  show "linux_state_of sample_b0 (state_of sample_b0)"
    by (simp add: linux_state_of_def state_of_def)
  show "fs_files (stat_host sample_busy) ''/proc/stat''
      = Some (stat_cpu_line sample_busy @ ''\<newline>cpu0 1 2 3\<newline>'')"
    by (simp add: stat_host_def)
  show "''\<newline>cpu0 1 2 3\<newline>'' = [] \<or> hd ''\<newline>cpu0 1 2 3\<newline>'' = CHR 0x0A"
    by simp
  show "breakdown_le sample_b0 sample_busy" "grand_total sample_b0 < grand_total sample_busy"
    by (simp_all add: breakdown_le_iff grand_total_def sample_b0_def sample_busy_def)
qed

theorem linux_run_in_unit_interval_witness:
  "list_all (\<lambda>r. \<exists>x. r = Inr (Fin x) \<and> 0 \<le> x \<and> x \<le> 1)
     (fst (cpu_run [stat_host sample_b0, stat_host sample_idle] init_state))"
  unfolding list_all_iff
proof (rule linux_run_in_unit_interval [where bfirst = zero_breakdown and bs = "[sample_b0, sample_idle]"])
  show "linux_state_of zero_breakdown init_state"
    by (simp add: linux_state_of_def init_state_def zero_breakdown_def grand_total_def idle_total_def)
  have nd: "\<not> isInDocker (stat_host b)" for b
    by (simp add: isInDocker_def stat_host_def fs_readFileSync_def)
  have lin: "is_linux (stat_host b)" for b
    by (simp add: is_linux_def stat_host_def)
  have ps: "proc_stat_shows (stat_host b) b" for b
    by (auto simp: proc_stat_shows_def stat_host_def)
  show "list_all2 (\<lambda>h b. \<not> isInDocker h \<and> is_linux h \<and> proc_stat_shows h b)
      [stat_host sample_b0, stat_host sample_idle] [sample_b0, sample_idle]"
    by (simp add: nd ps lin)
  show "successively (\<lambda>p c. breakdown_le p c \<and> grand_total p < grand_total c)
      [zero_breakdown, sample_b0, sample_idle]"
    by (simp add: breakdown_le_iff grand_total_def zero_breakdown_def sample_b0_def sample_idle_def)
qed

theorem getSystemCPU_container_witness:
  "getSystemCPU docker_host (init_state\<lparr>last_used := Fin 200\<rparr>) =
     (Inr (Fin (2 / 5)), init_state\<lparr>last_used := Fin 260, last_sys := Fin 1000\<rparr>)"
proof -
  have d: "isInDocker docker_host"
    by (simp add: isInDocker_def docker_host_def cfs_quota_path_def cfs_period_path_def
        host_eval_simps)
  have u: "getAllCPU docker_host = Inr (Fin 260)"
    by (simp add: getAllCPU_def getProcessCPU_def isPID_def proc_stat_path_def docker_host_def
        cfs_quota_path_def cfs_period_path_def host_eval_simps)
  have c: "getDockerCPUs docker_host = Inr (Fin (3 / 2))"
    by (simp add: getDockerCPUs_def docker_host_def cfs_quota_path_def cfs_period_path_def
        host_eval_simps)
  have t: "clock_ms docker_host = 1000" by (simp add: docker_host_def)
  show ?thesis
    using getSystemCPU_container [OF d u, of "init_state\<lparr>last_used := Fin 200\<rparr>" 200 0 "3 / 2"] c t
    by (simp add: init_state_def)
qed

theorem calculateCPU_in_unit_interval_witness:
  "\<exists>x. fst (calculateCPU generic_host \<lparr>lastTotal = Fin 1000, lastIdle = Fin 700,
        last_used = Fin 0, last_sys = Fin 0\<rparr>) = Inr (Fin x) \<and> 0 \<le> x \<and> x \<le> 1 \<and>
     generic_state_of (os_cpus generic_host) (snd (calculateCPU generic_host
        \<lparr>lastTotal = Fin 1000, lastIdle = Fin 700, last_used = Fin 0, last_sys = Fin 0\<rparr>))"
proof (rule calculateCPU_in_unit_interval [where prev = generic_prev])
  show "generic_state_of generic_prev
      \<lparr>lastTotal = Fin 1000, lastIdle = Fin 700, last_used = Fin 0, last_sys = Fin 0\<rparr>"
    by (simp add: generic_state_of_def generic_prev_def cpus_total_def cpus_idle_def)
  show "list_all2 cpu_times_le generic_prev (os_cpus generic_host)"
    by (simp add: generic_prev_def generic_host_def cpu_times_le_def)
  show "cpus_total generic_prev < cpus_total (os_cpus generic_host)"
    by (simp add: generic_prev_def generic_host_def cpus_total_def)
qed

theorem calculateLinuxCPU_no_elapsed_NaN_witness:
  "calculateLinuxCPU (stat_host sample_b0) (state_of sample_b0) = (Inr NaN, state_of sample_b0)"
proof (rule calculateLinuxCPU_no_elapsed_NaN)
  show "linux_state_of sample_b0 (state_of sample_b0)"
    by (simp add: linux_state_of_def state_of_def)
  show "fs_files (stat_host sample_b0) ''/proc/stat''
      = Some (stat_cpu_line sample_b0 @ ''\<newline>cpu0 1 2 3\<newline>'')"
    by (simp add: stat_host_def)
qed simp

end
