(* ===== verification/Sys_Readers.thy ===== *)
theory Sys_Readers
  imports Host_Env
begin

text \<open>
  Memory and load readers of \<open>src/lib/orders/system.js\<close>: \<open>getLoadAvg\<close>
  (lines 206--215), \<open>getTotalMemory\<close> (lines 217--228) and \<open>getMemoryUsage\<close>
  (lines 230--242). Each reads a \<open>/proc\<close> file with an unguarded
  \<open>readFileSync\<close>, so a missing file is an exception that escapes.

  \<open>getLoadAvg\<close> searches the trimmed text with the regular expression
  \<open>/(\d.\d+)\s+(\d.\d+)\s+(\d.\d+)/\<close>, in which \<open>.\<close> is any character but a
  line terminator (not a literal dot) and \<open>\d\<close> a single digit. At a given
  start position this expression matches in at most one way: each \<open>\d+\<close> is
  followed by \<open>\s\<close> or by nothing, and each \<open>\s+\<close> by \<open>\d\<close>, so the greedy
  run is the only one that can succeed. \<open>loadavg_regex\<close> therefore tries the
  start positions from the left with the deterministic \<open>loadavg_match_at\<close>,
  as the backtracking matcher does. \<open>Number()\<close> of a matched group
  (\<open>js_Number_match\<close>) follows ECMAScript's StringToNumber on the strings the
  group can hold: a digit, any character, digits.
\<close>

section \<open>The regular expression and \<open>Number()\<close>\<close>

definition is_line_term :: "char \<Rightarrow> bool" where
  "is_line_term c \<longleftrightarrow> c = CHR 0x0A \<or> c = CHR 0x0D"

text \<open>\<open>\d.\d+\<close> at the start of the text: the group and the rest.\<close>

fun match_num :: "string \<Rightarrow> (string \<times> string) option" where
  "match_num (d # c # r) =
     (if is_digit d \<and> \<not> is_line_term c \<and> takeWhile is_digit r \<noteq> []
      then Some (d # c # takeWhile is_digit r, dropWhile is_digit r) else None)"
| "match_num s = None"

text \<open>\<open>\s+\<close> at the start of the text: the rest.\<close>

definition match_ws :: "string \<Rightarrow> string option" where
  "match_ws s = (if takeWhile is_js_ws s \<noteq> [] then Some (dropWhile is_js_ws s) else None)"

definition loadavg_match_at :: "string \<Rightarrow> (string \<times> string \<times> string) option" where
  "loadavg_match_at s =
     (case match_num s of None \<Rightarrow> None | Some (g1, r1) \<Rightarrow>
      case match_ws r1 of None \<Rightarrow> None | Some r2 \<Rightarrow>
      case match_num r2 of None \<Rightarrow> None | Some (g2, r3) \<Rightarrow>
      case match_ws r3 of None \<Rightarrow> None | Some r4 \<Rightarrow>
      case match_num r4 of None \<Rightarrow> None | Some (g3, r5) \<Rightarrow> Some (g1, g2, g3))"

text \<open>\<open>load.match(reg)\<close>: the leftmost match, its three groups.\<close>

fun loadavg_regex :: "string \<Rightarrow> (string \<times> string \<times> string) option" where
  "loadavg_regex [] = None"
| "loadavg_regex (c # cs) =
     (case loadavg_match_at (c # cs) of Some m \<Rightarrow> Some m | None \<Rightarrow> loadavg_regex cs)"

definition radix_value :: "nat \<Rightarrow> string \<Rightarrow> nat" where
  "radix_value b ds = foldl (\<lambda>n d. b * n + digit_val d) 0 ds"

fun js_Number_match :: "string \<Rightarrow> jsnum" where
  "js_Number_match (d # c # ds) =
     (if c = CHR ''.'' then Fin (real (digit_val d) + real (digits_value ds) / 10 ^ length ds)
      else if is_digit c then Fin (real (digits_value (d # c # ds)))
      else if c = CHR ''e'' \<or> c = CHR ''E'' then Fin (real (digit_val d) * 10 ^ digits_value ds)
      else if d = CHR ''0'' \<and> (c = CHR ''x'' \<or> c = CHR ''X'') then Fin (real (radix_value 16 ds))
      else if d = CHR ''0'' \<and> (c = CHR ''o'' \<or> c = CHR ''O'') \<and> list_all (\<lambda>x. digit_val x < 8) ds
        then Fin (real (radix_value 8 ds))
      else if d = CHR ''0'' \<and> (c = CHR ''b'' \<or> c = CHR ''B'') \<and> list_all (\<lambda>x. digit_val x < 2) ds
        then Fin (real (radix_value 2 ds))
      else NaN)"
| "js_Number_match s = NaN"

section \<open>The readers\<close>

definition os_loadavg_js :: "host \<Rightarrow> jsnum \<times> jsnum \<times> jsnum" where
  "os_loadavg_js h = (case os_loadavg h of (a, b, c) \<Rightarrow> (Fin a, Fin b, Fin c))"

definition getLoadAvg :: "host \<Rightarrow> (jsnum \<times> jsnum \<times> jsnum) js_result" where
  "getLoadAvg h =
     js_bind (fs_readFileSync h ''/proc/loadavg'') (\<lambda>raw.
       case loadavg_regex (js_trim raw) of
         Some (g1, g2, g3) \<Rightarrow> Inr (js_Number_match g1, js_Number_match g2, js_Number_match g3)
       | None \<Rightarrow> Inr (os_loadavg_js h))"

text \<open>The loop of \<open>getTotalMemory\<close>: the first line whose label is
  \<open>MemTotal\<close>, else \<open>os.totalmem()\<close>.\<close>

fun memtotal_scan :: "jsnum \<Rightarrow> string list \<Rightarrow> jsnum" where
  "memtotal_scan fallback [] = fallback"
| "memtotal_scan fallback (l # ls) =
     (let line = split_on CHR '':'' l in
      if arr_get line 0 = Some ''MemTotal''
      then js_mul (js_parseInt_opt (arr_get line 1)) (Fin 1024)
      else memtotal_scan fallback ls)"

definition getTotalMemory :: "host \<Rightarrow> jsnum js_result" where
  "getTotalMemory h =
     js_bind (fs_readFileSync h ''/proc/meminfo'') (\<lambda>raw.
       Inr (memtotal_scan (Fin (real (os_totalmem h))) (split_on CHR 0x0A (js_trim raw))))"

text \<open>The \<open>forEach\<close> callback of \<open>getMemoryUsage\<close>.\<close>

definition mem_free_step :: "jsnum \<Rightarrow> string \<Rightarrow> jsnum" where
  "mem_free_step real_free line =
     (let pair = split_on CHR '':'' line in
      if (case arr_get pair 0 of
            None \<Rightarrow> False
          | Some k \<Rightarrow> k \<in> set [''MemFree'', ''Buffers'', ''Cached''])
      then js_add real_free (js_parseInt_opt (arr_get pair 1))
      else real_free)"

definition getMemoryUsage :: "host \<Rightarrow> jsnum js_result" where
  "getMemoryUsage h =
     js_bind (fs_readFileSync h ''/proc/meminfo'') (\<lambda>raw.
       let usage = split_on CHR 0x0A (js_trim raw);
           real_free = foldl mem_free_step (Fin 0) usage
       in Inr (js_mul real_free (Fin 1024)))"

section \<open>Normal returns\<close>

text \<open>Each reader returns normally whenever its file exists.\<close>

lemma os_loadavg_js_eq [simp]:
  "os_loadavg_js h = (Fin (fst (os_loadavg h)), Fin (fst (snd (os_loadavg h))), Fin (snd (snd (os_loadavg h))))"
  by (simp add: os_loadavg_js_def split: prod.split)

lemma getLoadAvg_Inr: "fs_files h ''/proc/loadavg'' = Some raw \<Longrightarrow> \<exists>l. getLoadAvg h = Inr l"
  by (cases "loadavg_regex (js_trim raw)") (auto simp: getLoadAvg_def)

lemma meminfo_readers_Inr:
  "fs_files h ''/proc/meminfo'' = Some raw \<Longrightarrow> \<exists>tm. getTotalMemory h = Inr tm"
  "fs_files h ''/proc/meminfo'' = Some raw \<Longrightarrow> \<exists>fm. getMemoryUsage h = Inr fm"
  by (simp_all add: getTotalMemory_def getMemoryUsage_def Let_def)

section \<open>The kernel's formats\<close>

text \<open>
  A line of \<open>/proc/meminfo\<close> as the kernel prints it: a label, a colon, a
  blank padding, the value in kilobytes and the unit (\<open>MemFree:  100 kB\<close>).
  Labels hold no colon and no blank.
\<close>

record mi_entry =
  mi_label :: string
  mi_pad :: string
  mi_kb :: nat

definition render_mi_line :: "mi_entry \<Rightarrow> string" where
  "render_mi_line e = mi_label e @ CHR '':'' # mi_pad e @ dec_string (mi_kb e) @ '' kB''"

definition render_meminfo :: "mi_entry list \<Rightarrow> string" where
  "render_meminfo es = join_with CHR 0x0A (map render_mi_line es) @ [CHR 0x0A]"

definition wf_mi_entry :: "mi_entry \<Rightarrow> bool" where
  "wf_mi_entry e \<longleftrightarrow> mi_label e \<noteq> [] \<and>
     list_all (\<lambda>c. c \<noteq> CHR '':'' \<and> \<not> is_js_ws c) (mi_label e) \<and>
     list_all (\<lambda>c. c = CHR '' '') (mi_pad e)"

text \<open>The figure \<open>getMemoryUsage\<close> is meant to report, in kilobytes.\<close>

definition mem_free_labels :: "string list" where
  "mem_free_labels = [''MemFree'', ''Buffers'', ''Cached'']"

definition mem_free_kb :: "mi_entry list \<Rightarrow> nat" where
  "mem_free_kb es = sum_list (map mi_kb (filter (\<lambda>e. mi_label e \<in> set mem_free_labels) es))"

text \<open>
  \<open>/proc/loadavg\<close> as the kernel prints it, \<open>"%lu.%02lu %lu.%02lu %lu.%02lu
  %u/%d %d\n"\<close>: the three averages in hundredths, the runnable and total
  thread counts and the last PID.
\<close>

definition load_string :: "nat \<Rightarrow> string" where
  "load_string n =
     dec_string (n div 100) @ CHR ''.'' # [digit_char (n mod 100 div 10), digit_char (n mod 10)]"

definition render_loadavg :: "nat \<Rightarrow> nat \<Rightarrow> nat \<Rightarrow> nat \<Rightarrow> nat \<Rightarrow> nat \<Rightarrow> string" where
  "render_loadavg a b c running threads last_pid =
     load_string a @ CHR '' '' # load_string b @ CHR '' '' # load_string c @ CHR '' '' #
     dec_string running @ CHR ''/'' # dec_string threads @ CHR '' '' # dec_string last_pid @
     [CHR 0x0A]"

section \<open>Reading \<open>/proc/meminfo\<close>\<close>

lemma nl_ws: "is_js_ws (CHR 0x0A)"
  by (simp add: is_js_ws_def)

lemma colon_not_digit: "\<not> is_digit CHR '':''"
  by (simp add: is_digit_def)

lemma render_mi_line_not_Nil: "render_mi_line e \<noteq> []" by (simp add: render_mi_line_def)

lemma render_mi_line_last: "\<not> is_js_ws (last (render_mi_line e))"
    by (simp add: render_mi_line_def is_js_ws_def)

lemma render_mi_line_hd:   assumes "wf_mi_entry e" shows "\<not> is_js_ws (hd (render_mi_line e))"
proof -
  have "hd (mi_label e) \<in> set (mi_label e)" using assms by (simp add: wf_mi_entry_def)
  then show "\<not> is_js_ws (hd (render_mi_line e))"
    using assms by (auto simp: wf_mi_entry_def render_mi_line_def list_all_iff)
qed

lemma dec_string_no_nl: "CHR 0x0A \<notin> set (dec_string n)"
    using dec_string_no_ws nl_ws by blast

lemma wf_mi_entry_not_mem:
  assumes "wf_mi_entry e" "x = CHR '':'' \<or> x = CHR 0x0A"
  shows "x \<notin> set (mi_label e)" "x \<notin> set (mi_pad e)"
proof -
  have x: "x \<noteq> CHR '' ''" "x = CHR '':'' \<or> is_js_ws x" using assms(2) by (auto simp: is_js_ws_def)
  have l: "list_all (\<lambda>c. c \<noteq> CHR '':'' \<and> \<not> is_js_ws c) (mi_label e)"
    and p: "list_all (\<lambda>c. c = CHR '' '') (mi_pad e)"
    using assms(1) by (simp_all add: wf_mi_entry_def)
  from l show "x \<notin> set (mi_label e)" by (rule list_all_not_mem) (use x(2) in auto)
  from p show "x \<notin> set (mi_pad e)" by (rule list_all_not_mem) (use x(1) in auto)
qed

lemma render_mi_line_no_nl: assumes "wf_mi_entry e" shows "CHR 0x0A \<notin> set (render_mi_line e)"
  using dec_string_no_nl wf_mi_entry_not_mem [OF assms] by (simp add: render_mi_line_def)

lemma render_mi_line_fields:
  assumes "wf_mi_entry e"
  shows "split_on CHR '':'' (render_mi_line e) =
           [mi_label e, mi_pad e @ dec_string (mi_kb e) @ '' kB'']"
proof -
  have "CHR '':'' \<notin> set (dec_string (mi_kb e))"
    using dec_string_digits colon_not_digit by blast
  with wf_mi_entry_not_mem [OF assms] show ?thesis
    by (simp add: render_mi_line_def split_on_append_sep split_on_no_sep)
qed

lemma render_mi_line_value:
  assumes "wf_mi_entry e"
  shows "js_parseInt (mi_pad e @ dec_string (mi_kb e) @ '' kB'') = Fin (real (mi_kb e))"
proof (rule js_parseInt_dec_string)
  show "\<forall>c\<in>set (mi_pad e). is_js_ws c"
    using assms by (auto simp: wf_mi_entry_def list_all_iff is_js_ws_def)
qed (simp add: is_digit_def)

lemma meminfo_lines:
  assumes "es \<noteq> []" "list_all wf_mi_entry es"
  shows "split_on CHR 0x0A (js_trim (render_meminfo es)) = map render_mi_line es"
proof -
  let ?ls = "map render_mi_line es"
  have wf: "\<And>e. e \<in> set es \<Longrightarrow> wf_mi_entry e" using assms(2) by (simp add: list_all_iff)
  have hd_ok: "hd ?ls \<noteq> []" "\<not> is_js_ws (hd (hd ?ls))"
    using assms(1) wf [of "hd es"] render_mi_line_not_Nil render_mi_line_hd by (simp_all add: hd_map)
  have last_ok: "last ?ls \<noteq> []" "\<not> is_js_ws (last (last ?ls))"
    using assms(1) render_mi_line_not_Nil render_mi_line_last by (simp_all add: last_map)
  have "js_trim (render_meminfo es) = js_trim (join_with CHR 0x0A ?ls)"
    unfolding render_meminfo_def by (rule js_trim_append_ws) (simp add: nl_ws)
  also have "\<dots> = join_with CHR 0x0A ?ls"
    using assms(1) hd_ok last_ok
    by (intro js_trim_id join_with_not_Nil) (simp_all add: hd_join_with last_join_with)
  finally show ?thesis
    using assms(1) wf render_mi_line_no_nl by (simp add: split_on_join_with)
qed

lemma mi_line_label:
  "wf_mi_entry e \<Longrightarrow> arr_get (split_on CHR '':'' (render_mi_line e)) 0 = Some (mi_label e)"
  by (simp add: render_mi_line_fields)

lemma mi_line_value:
  "wf_mi_entry e \<Longrightarrow> js_parseInt_opt (arr_get (split_on CHR '':'' (render_mi_line e)) (Suc 0)) = Fin (real (mi_kb e))"
  by (simp add: render_mi_line_fields render_mi_line_value)

lemma memtotal_scan_render:
  "list_all wf_mi_entry es \<Longrightarrow>
   memtotal_scan fb (map render_mi_line es) =
     (case find (\<lambda>e. mi_label e = ''MemTotal'') es of
        None \<Rightarrow> fb | Some e \<Rightarrow> Fin (real (mi_kb e) * 1024))"
  by (induction es) (simp_all add: mi_line_label mi_line_value)

lemma mem_free_step_render:
  "wf_mi_entry e \<Longrightarrow> mem_free_step (Fin a) (render_mi_line e) =
     Fin (if mi_label e \<in> set mem_free_labels then a + real (mi_kb e) else a)"
  by (simp add: mem_free_step_def mi_line_label mi_line_value mem_free_labels_def del: list.set)

lemma foldl_mem_free_step:
  "list_all wf_mi_entry es \<Longrightarrow>
   foldl mem_free_step (Fin a) (map render_mi_line es) = Fin (a + real (mem_free_kb es))"
  by (induction es arbitrary: a) (simp_all add: mem_free_step_render mem_free_kb_def)

text \<open>
  C17. On a well-formed \<open>/proc/meminfo\<close>, \<open>getMemoryUsage\<close> returns 1024 times
  the sum of the \<open>MemFree\<close>, \<open>Buffers\<close> and \<open>Cached\<close> values, every such
  line counted.
\<close>

lemma getMemoryUsage_meminfo:
  assumes "fs_files h ''/proc/meminfo'' = Some (render_meminfo es)"
    and "es \<noteq> []" "list_all wf_mi_entry es"
  shows "getMemoryUsage h = Inr (Fin (1024 * real (mem_free_kb es)))"
  using assms by (simp add: getMemoryUsage_def meminfo_lines foldl_mem_free_step)

text \<open>
  C18. On a well-formed \<open>/proc/meminfo\<close>, \<open>getTotalMemory\<close> returns 1024 times
  the value of the first \<open>MemTotal\<close> line, and \<open>os.totalmem()\<close> when there is
  none.
\<close>

lemma getTotalMemory_meminfo:
  assumes "fs_files h ''/proc/meminfo'' = Some (render_meminfo es)"
    and "es \<noteq> []" "list_all wf_mi_entry es"
  shows "getTotalMemory h =
           Inr (case find (\<lambda>e. mi_label e = ''MemTotal'') es of
                  None \<Rightarrow> Fin (real (os_totalmem h))
                | Some e \<Rightarrow> Fin (1024 * real (mi_kb e)))"
  using assms by (simp add: getTotalMemory_def meminfo_lines memtotal_scan_render mult.commute
    split: option.split)

section \<open>Reading \<open>/proc/loadavg\<close>\<close>

lemma digit_char_not_line_term [simp]: "d < 10 \<Longrightarrow> \<not> is_line_term (digit_char d)"
  using digit_char_props(3) by (auto simp: is_line_term_def is_js_ws_def)

lemma dot_not_digit [simp]: "\<not> is_digit CHR ''.''" "\<not> is_js_ws CHR ''.''"
  by (simp_all add: is_digit_def is_js_ws_def)

lemma space_facts [simp]: "\<not> is_digit CHR '' ''" "is_js_ws CHR '' ''" "\<not> is_line_term CHR ''.''"
  by (simp_all add: is_digit_def is_js_ws_def is_line_term_def)

lemma load_string_small: "n < 1000 \<Longrightarrow>
  load_string n = [digit_char (n div 100), CHR ''.'', digit_char (n mod 100 div 10), digit_char (n mod 10)]"
  by (simp add: load_string_def dec_string.simps [of "n div 100"])

lemma load_string_mod_1000:
  "load_string (n mod 1000) =
     [digit_char (n div 100 mod 10), CHR ''.'', digit_char (n mod 100 div 10), digit_char (n mod 10)]"
proof -
  have e: "n mod 1000 = n mod 100 + 100 * (n div 100 mod 10)"
    using mod_mult2_eq [of n 100 10] by simp
  have "n mod 1000 div 100 = n div 100 mod 10" "n mod 1000 mod 100 = n mod 100"
    by (simp_all only: e) simp_all
  moreover have "n mod 1000 mod 10 = n mod 10" by (rule mod_mod_cancel) simp
  ultimately show ?thesis by (simp add: load_string_small)
qed

lemma digit_digits [simp]: "is_digit (digit_char (n mod 10))" "is_digit (digit_char (n mod 100 div 10))"
  "is_digit (digit_char (n div 100 mod 10))"
  by (simp_all add: digit_char_props(1))

lemma load_string_hd [simp]: "load_string n \<noteq> []" "\<not> is_js_ws (hd (load_string n))"
  by (simp_all add: load_string_def dec_string_hd)

lemma match_num_load:
  "n < 1000 \<Longrightarrow> match_num (load_string n @ CHR '' '' # r) = Some (load_string n, CHR '' '' # r)"
  using digit_digits [of n] by (simp add: load_string_small digit_not_ws)

lemma match_ws_space:
  "r \<noteq> [] \<Longrightarrow> \<not> is_js_ws (hd r) \<Longrightarrow> match_ws (CHR '' '' # r) = Some r"
  by (cases r) (simp_all add: match_ws_def)

lemma loadavg_regex_hit: "loadavg_match_at s = Some m \<Longrightarrow> loadavg_regex s = Some m"
  by (cases s) (simp_all add: loadavg_match_at_def)

lemma match_at_digits_dot:
  assumes "is_digit d" "is_digit d'" "list_all is_digit ds"
  shows "loadavg_match_at (d # d' # ds @ CHR ''.'' # r) = None"
proof -
  have "takeWhile is_digit (ds @ CHR ''.'' # r) = ds" "dropWhile is_digit (ds @ CHR ''.'' # r) = CHR ''.'' # r"
    using assms(3) by (simp_all add: list_all_iff)
  with assms show ?thesis
    by (simp add: loadavg_match_at_def match_ws_def digit_not_ws is_line_term_def split: option.split)
qed

lemma loadavg_regex_skip:
  "list_all is_digit D \<Longrightarrow> D \<noteq> [] \<Longrightarrow>
   loadavg_regex (D @ CHR ''.'' # r) = loadavg_regex (last D # CHR ''.'' # r)"
proof (induction D)
  case (Cons d D)
  show ?case
  proof (cases D)
    case (Cons d' ds)
    with Cons.prems have "loadavg_match_at (d # d' # ds @ CHR ''.'' # r) = None"
      by (intro match_at_digits_dot) simp_all
    with Cons Cons.IH Cons.prems show ?thesis by simp
  qed simp
qed simp

lemma loadavg_regex_mod:
  "loadavg_regex (load_string n @ s) = loadavg_regex (load_string (n mod 1000) @ s)"
proof -
  have "list_all is_digit (dec_string (n div 100))"
    using dec_string_digits by (simp add: list_all_iff)
  then show ?thesis
    by (simp add: load_string_def [of n] loadavg_regex_skip last_dec_string load_string_mod_1000)
qed

lemma loadavg_regex_render:
  assumes "b < 1000" "c < 1000"
  shows "loadavg_regex (load_string a @ CHR '' '' # load_string b @ CHR '' '' # load_string c @ CHR '' '' # r) =
           Some (load_string (a mod 1000), load_string b, load_string c)"
  unfolding loadavg_regex_mod [of a]
  by (rule loadavg_regex_hit)
     (simp add: loadavg_match_at_def match_num_load match_ws_space assms)

lemma js_Number_load_string:
  assumes "n < 1000"
  shows "js_Number_match (load_string n) = Fin (real n / 100)"
proof -
  have "n mod 100 mod 10 = n mod 10" by (rule mod_mod_cancel) simp
  then have dv: "digits_value [digit_char (n mod 100 div 10), digit_char (n mod 10)] = n mod 100"
    using div_mult_mod_eq [of "n mod 100" 10] by (simp add: digits_value_def)
  have "real n = real (n div 100 * 100 + n mod 100)" by (simp only: div_mult_mod_eq)
  also have "\<dots> = real (n div 100) * 100 + real (n mod 100)"
    by (simp only: of_nat_add of_nat_mult of_nat_numeral)
  finally have r: "real n / 100 = real (n div 100) + real (n mod 100) / 100" by simp
  have "n div 100 < 10" using assms by (simp add: div_less_iff_less_mult)
  with r have "real (n div 100 mod 10) + real (n mod 100) / 100 = real n / 100"
    by simp
  with assms dv show ?thesis by (simp add: load_string_small)
qed

lemma js_trim_render_loadavg:
  "js_trim (render_loadavg a b c run thr pid) =
     load_string a @ CHR '' '' # load_string b @ CHR '' '' # load_string c @ CHR '' '' #
     dec_string run @ CHR ''/'' # dec_string thr @ CHR '' '' # dec_string pid"
  (is "_ = ?x")
proof -
  have "render_loadavg a b c run thr pid = ?x @ [CHR 0x0A]"
    by (simp add: render_loadavg_def)
  then have "js_trim (render_loadavg a b c run thr pid) = js_trim ?x"
    using js_trim_append_ws [of "[CHR 0x0A]" ?x] by (simp add: is_js_ws_def)
  also have "\<dots> = ?x"
    by (rule js_trim_id) (simp_all add: dec_string_last)
  finally show ?thesis .
qed

text \<open>
  On the kernel's text, the leftmost match starts inside the first figure's
  integer part at its last digit, since \<open>.\<close> and \<open>\d\<close> can only meet the
  decimal point there: the first figure is read modulo 10.
\<close>

lemma getLoadAvg_render:
  assumes "fs_files h ''/proc/loadavg'' = Some (render_loadavg a b c run thr pid)"
    and "b < 1000" "c < 1000"
  shows "getLoadAvg h = Inr (Fin (real (a mod 1000) / 100), Fin (real b / 100), Fin (real c / 100))"
  using assms
  by (simp add: getLoadAvg_def js_trim_render_loadavg loadavg_regex_render js_Number_load_string)

lemma loadavg_regex_no_digit: "\<not> list_ex is_digit s \<Longrightarrow> loadavg_regex s = None"
proof (induction s rule: loadavg_regex.induct)
  case (2 c cs)
  then have "match_num (c # cs) = None" by (cases cs) simp_all
  with 2 show ?case by (simp add: loadavg_match_at_def)
qed simp

text \<open>
  C19. When every load average is below 10, \<open>getLoadAvg\<close> returns the three
  figures of \<open>/proc/loadavg\<close> exactly.
\<close>

theorem getLoadAvg_kernel_figures:
  assumes "fs_files h ''/proc/loadavg'' = Some (render_loadavg a b c run thr pid)"
    and "a < 1000" "b < 1000" "c < 1000"
  shows "getLoadAvg h = Inr (Fin (real a / 100), Fin (real b / 100), Fin (real c / 100))"
  using getLoadAvg_render [OF assms(1,3,4)] assms(2) by simp

text \<open>
  C20. When the 1-minute load average is 10 or more and the 5- and 15-minute
  averages are below 10, \<open>getLoadAvg\<close> drops the tens and higher digits of
  the first: a load of 12.50 is reported as 2.5, and the other two exactly.
  (When a later average is 10 or more too, the match shifts further and the
  figures are scrambled; this theorem does not describe that case.)
\<close>

theorem getLoadAvg_high_load_misread:
  assumes "fs_files h ''/proc/loadavg'' = Some (render_loadavg a b c run thr pid)"
    and "1000 \<le> a" "b < 1000" "c < 1000"
  shows "getLoadAvg h = Inr (Fin (real (a mod 1000) / 100), Fin (real b / 100), Fin (real c / 100)) \<and>
         real (a mod 1000) / 100 < real a / 100"
  using getLoadAvg_render [OF assms(1,3,4)] assms(2) by simp

text \<open>
  C21. When \<open>/proc/loadavg\<close> holds no digit, the pattern does not match and
  \<open>getLoadAvg\<close> returns \<open>os.loadavg()\<close>.
\<close>

theorem getLoadAvg_no_digits_fallback:
  assumes "fs_files h ''/proc/loadavg'' = Some raw" "\<not> list_ex is_digit raw"
  shows "getLoadAvg h = Inr (os_loadavg_js h)"
proof -
  have "\<not> list_ex is_digit (js_trim raw)"
    using assms(2) set_js_trim by (auto simp: list_ex_iff)
  with assms(1) show ?thesis by (simp add: getLoadAvg_def loadavg_regex_no_digit)
qed

section \<open>Examples\<close>

text \<open>A Linux host whose file system holds one file.\<close>

definition file_host :: "string \<Rightarrow> string \<Rightarrow> host" where
  "file_host p content =
     \<lparr>os_type = ''Linux'', os_cpus = [], os_uptime = 0, os_totalmem = 8388608, os_freemem = 0,
      os_loadavg = (1, 2, 3), fs_files = [p \<mapsto> content], fs_dirs = Map.empty, fs_unreadable = {}, clock_ms = 0\<rparr>"

text \<open>The example of the specification: \<open>MemFree\<close>, \<open>Buffers\<close> and \<open>Cached\<close> of
  100, 50 and 200 kB.\<close>

definition sample_meminfo :: "mi_entry list" where
  "sample_meminfo =
     [\<lparr>mi_label = ''MemTotal'', mi_pad = ''    '', mi_kb = 1000\<rparr>,
      \<lparr>mi_label = ''MemFree'', mi_pad = ''     '', mi_kb = 100\<rparr>,
      \<lparr>mi_label = ''Buffers'', mi_pad = ''     '', mi_kb = 50\<rparr>,
      \<lparr>mi_label = ''Cached'', mi_pad = ''      '', mi_kb = 200\<rparr>,
      \<lparr>mi_label = ''SwapCached'', mi_pad = ''  '', mi_kb = 30\<rparr>]"

lemma sample_meminfo_wf: "list_all wf_mi_entry sample_meminfo"
  by (simp add: sample_meminfo_def wf_mi_entry_def is_js_ws_def)

theorem getMemoryUsage_spec_example:
  "getMemoryUsage (file_host ''/proc/meminfo'' (render_meminfo sample_meminfo)) = Inr (Fin 358400)"
  using getMemoryUsage_meminfo [of "file_host ''/proc/meminfo'' (render_meminfo sample_meminfo)" sample_meminfo]
    sample_meminfo_wf
  by (simp add: file_host_def sample_meminfo_def mem_free_kb_def mem_free_labels_def)

theorem getTotalMemory_spec_example:
  "getTotalMemory (file_host ''/proc/meminfo'' (render_meminfo sample_meminfo)) = Inr (Fin 1024000)"
  using getTotalMemory_meminfo [of "file_host ''/proc/meminfo'' (render_meminfo sample_meminfo)" sample_meminfo]
    sample_meminfo_wf
  by (simp add: file_host_def sample_meminfo_def)

theorem getLoadAvg_kernel_example:
  "getLoadAvg (file_host ''/proc/loadavg'' (render_loadavg 10 20 30 1 200 1234)) =
     Inr (Fin (1/10), Fin (2/10), Fin (3/10))"
  using getLoadAvg_kernel_figures [of "file_host ''/proc/loadavg'' (render_loadavg 10 20 30 1 200 1234)" 10 20 30 1 200 1234]
  by (simp add: file_host_def)

theorem getLoadAvg_high_load_example:
  "getLoadAvg (file_host ''/proc/loadavg'' (render_loadavg 1250 900 800 1 200 1234)) =
     Inr (Fin (5/2), Fin 9, Fin 8)"
  using getLoadAvg_high_load_misread [of "file_host ''/proc/loadavg'' (render_loadavg 1250 900 800 1 200 1234)" 1250 900 800 1 200 1234]
  by (simp add: file_host_def)

theorem getLoadAvg_fallback_example:
  "getLoadAvg (file_host ''/proc/loadavg'' (''n/a'' @ [CHR 0x0A])) = Inr (Fin 1, Fin 2, Fin 3)"
  using getLoadAvg_no_digits_fallback [of "file_host ''/proc/loadavg'' (''n/a'' @ [CHR 0x0A])" "(''n/a'' @ [CHR 0x0A])"]
  by (simp add: file_host_def is_digit_def os_loadavg_js_def)

end
