(* ===== verification/Snapshot.thy ===== *)
theory Snapshot
  imports CPU_Estimator Sys_Readers
begin

text \<open>
  The snapshot assembler of \<open>src/lib/orders/system.js\<close>: \<open>status\<close>
  (lines 244--257) and \<open>exports.run\<close> (lines 259--264). \<open>status\<close> evaluates,
  in this order, the load averages, the object literal's \<open>uptime\<close>,
  \<open>totalmem\<close> and \<open>freemem\<close>, then \<open>getSystemCPU\<close> (the only call that
  changes the estimator state) and \<open>cpu_count\<close>. An exception of any reader
  escapes \<open>status\<close> and \<open>run\<close>; \<open>run\<close> then never invokes its callback.
  \<open>run h s = (Inr r, s')\<close> means that \<open>callback(null, r)\<close> was called.
  \<open>collect\<close> is the agent calling \<open>run\<close> on the hosts of successive calls;
  the estimator state persists across calls, also across a call that threw.
\<close>

record metrics =
  uptime :: real
  totalmem :: jsnum
  freemem :: jsnum
  load1 :: jsnum
  load5 :: jsnum
  load15 :: jsnum
  cpu :: jsnum
  cpu_count :: nat

record report =
  report_type :: string
  report_metrics :: metrics

definition status :: "host \<Rightarrow> cpu_state \<Rightarrow> metrics js_result \<times> cpu_state" where
  "status h s =
     (let linux = is_linux h in
      (case (if linux then getLoadAvg h else Inr (os_loadavg_js h)) of
         Inl e \<Rightarrow> (Inl e, s)
       | Inr (l1, l5, l15) \<Rightarrow>
         (case (if linux then getTotalMemory h else Inr (Fin (real (os_totalmem h)))) of
            Inl e \<Rightarrow> (Inl e, s)
          | Inr tm \<Rightarrow>
            (case (if linux then getMemoryUsage h else Inr (Fin (real (os_freemem h)))) of
               Inl e \<Rightarrow> (Inl e, s)
             | Inr fm \<Rightarrow>
               (case getSystemCPU h s of
                  (Inl e, s') \<Rightarrow> (Inl e, s')
                | (Inr c, s') \<Rightarrow>
                    (Inr \<lparr>uptime = os_uptime h, totalmem = tm, freemem = fm,
                          load1 = l1, load5 = l5, load15 = l15, cpu = c,
                          cpu_count = length (os_cpus h)\<rparr>, s'))))))"

definition run :: "host \<Rightarrow> cpu_state \<Rightarrow> report js_result \<times> cpu_state" where
  "run h s =
     (case status h s of
        (Inl e, s') \<Rightarrow> (Inl e, s')
      | (Inr m, s') \<Rightarrow> (Inr \<lparr>report_type = ''system'', report_metrics = m\<rparr>, s'))"

fun collect :: "host list \<Rightarrow> cpu_state \<Rightarrow> report js_result list \<times> cpu_state" where
  "collect [] s = ([], s)"
| "collect (h # hs) s =
     (let (r, s') = run h s; (rs, s'') = collect hs s' in (r # rs, s''))"

section \<open>The readers and the estimator inside \<open>run\<close>\<close>

text \<open>\<open>readers_available\<close>: every file the readers of \<open>status\<close> open can be
  read (none is opened off Linux). Then \<open>run\<close> is \<open>getSystemCPU\<close>'s call with a
  report around its result: the same final state, and the callback invoked
  exactly when \<open>getSystemCPU\<close> returns.\<close>

definition readers_available :: "host \<Rightarrow> bool" where
  "readers_available h \<longleftrightarrow>
     \<not> is_linux h \<or> (fs_files h ''/proc/loadavg'' \<noteq> None \<and> fs_files h ''/proc/meminfo'' \<noteq> None)"

lemma readers_available_generic [simp]: "\<not> is_linux h \<Longrightarrow> readers_available h"
  by (simp add: readers_available_def)

lemma readers_Inr:
  assumes "readers_available h"
  shows "\<exists>l1 l5 l15 tm fm.
    (if is_linux h then getLoadAvg h else Inr (os_loadavg_js h)) = Inr (l1, l5, l15) \<and>
    (if is_linux h then getTotalMemory h else Inr (Fin (real (os_totalmem h)))) = Inr tm \<and>
    (if is_linux h then getMemoryUsage h else Inr (Fin (real (os_freemem h)))) = Inr fm"
proof -
  have "\<exists>l. (if is_linux h then getLoadAvg h else Inr (os_loadavg_js h)) = Inr l"
    "\<exists>tm. (if is_linux h then getTotalMemory h else Inr (Fin (real (os_totalmem h)))) = Inr tm"
    "\<exists>fm. (if is_linux h then getMemoryUsage h else Inr (Fin (real (os_freemem h)))) = Inr fm"
    using assms getLoadAvg_Inr meminfo_readers_Inr
    by (auto simp: readers_available_def)
  then show ?thesis by (simp only: split_paired_Ex) blast
qed

lemma run_cpu_result:
  assumes "readers_available h"
  shows "\<exists>m. run h s =
    (case getSystemCPU h s of
       (Inl e, s') \<Rightarrow> (Inl e, s')
     | (Inr c, s') \<Rightarrow> (Inr \<lparr>report_type = ''system'', report_metrics = m\<lparr>cpu := c\<rparr>\<rparr>, s'))"
proof -
  obtain l1 l5 l15 tm fm where r:
    "(if is_linux h then getLoadAvg h else Inr (os_loadavg_js h)) = Inr (l1, l5, l15)"
    "(if is_linux h then getTotalMemory h else Inr (Fin (real (os_totalmem h)))) = Inr tm"
    "(if is_linux h then getMemoryUsage h else Inr (Fin (real (os_freemem h)))) = Inr fm"
    using readers_Inr [OF assms] by blast
  show ?thesis
    by (rule exI [of _ "\<lparr>uptime = os_uptime h, totalmem = tm, freemem = fm,
          load1 = l1, load5 = l5, load15 = l15, cpu = Fin 0, cpu_count = length (os_cpus h)\<rparr>"])
       (use r in \<open>simp add: run_def status_def Let_def split: prod.split sum.split\<close>)
qed

lemma run_state:
  "readers_available h \<Longrightarrow> snd (run h s) = snd (getSystemCPU h s)"
  using run_cpu_result [of h s] by (auto split: prod.split sum.split)

lemma run_cpu:
  assumes "readers_available h" "fst (getSystemCPU h s) = Inr c"
  shows "\<exists>m. fst (run h s) = Inr m \<and> report_type m = ''system'' \<and> cpu (report_metrics m) = c"
  using run_cpu_result [of h s] assms by (auto split: prod.split sum.split)

lemma run_last_sys_frame:
  assumes "\<not> isInDocker h"
  shows "run h (s\<lparr>last_sys := t\<rparr>) = (fst (run h s), (snd (run h s))\<lparr>last_sys := t\<rparr>)"
  using getSystemCPU_last_sys_frame [OF assms, where s = s and t = t]
  by (simp add: run_def status_def Let_def split: sum.split prod.split)

lemma collect_two:
  "collect [h1, h2] s =
     ([fst (run h1 s), fst (run h2 (snd (run h1 s)))], snd (run h2 (snd (run h1 s))))"
  by (simp split: prod.split)

lemma collect_two_cpu:
  assumes "readers_available h2" "fst (getSystemCPU h2 (snd (run h1 s))) = Inr c"
  shows "\<exists>r1 m2 s'. collect [h1, h2] s = ([r1, Inr m2], s') \<and> cpu (report_metrics m2) = c"
  using run_cpu [OF assms] unfolding collect_two by auto

section \<open>Properties of a call\<close>

text \<open>
  C22. On Linux, when \<open>/proc/loadavg\<close> or \<open>/proc/meminfo\<close> is missing
  or cannot be read, \<open>run\<close> throws and never invokes its callback, and the estimator state is
  left as it was.
\<close>

theorem run_reader_missing_throws:
  assumes "is_linux h" "fs_files h ''/proc/loadavg'' = None \<or> fs_files h ''/proc/meminfo'' = None"
  shows "\<exists>e. run h s = (Inl e, s)"
proof (cases "fs_files h ''/proc/loadavg''")
  case None
  with assms(1) show ?thesis by (simp add: run_def status_def getLoadAvg_def fs_readFileSync_def)
next
  case (Some raw)
  then obtain l where "getLoadAvg h = Inr l"
    using getLoadAvg_Inr by blast
  with Some assms show ?thesis
    by (cases l) (simp add: run_def status_def getTotalMemory_def fs_readFileSync_def)
qed

text \<open>
  C23. On a host that is neither Linux nor a container, \<open>run\<close> always
  invokes its callback with a \<open>system\<close> report of the host's own uptime,
  memory, load and CPU count, and the generic estimate over \<open>os.cpus()\<close>,
  whose sums it stores.
\<close>

theorem run_generic_host_reports:
  assumes "\<not> is_linux h" "\<not> isInDocker h"
  shows "run h s =
    (Inr \<lparr>report_type = ''system'',
          report_metrics = \<lparr>uptime = os_uptime h,
            totalmem = Fin (real (os_totalmem h)), freemem = Fin (real (os_freemem h)),
            load1 = Fin (fst (os_loadavg h)), load5 = Fin (fst (snd (os_loadavg h))),
            load15 = Fin (snd (snd (os_loadavg h))),
            cpu = js_sub (Fin 1) (js_div (js_sub (Fin (real (cpus_idle (os_cpus h)))) (lastIdle s))
                                         (js_sub (Fin (real (cpus_total (os_cpus h)))) (lastTotal s))),
            cpu_count = length (os_cpus h)\<rparr>\<rparr>,
     s\<lparr>lastTotal := Fin (real (cpus_total (os_cpus h))), lastIdle := Fin (real (cpus_idle (os_cpus h)))\<rparr>)"
  using assms
  by (simp add: run_def status_def os_loadavg_js_def getSystemCPU_dispatch calculateCPU_eq
      split: prod.split)

text \<open>
  C24. On a Linux host outside a container whose \<open>/proc\<close> files are in the
  kernel's formats and whose three load averages are all below 10 (C20 shows
  that higher loads are misread), from a state holding an earlier sample
  with a different total, \<open>run\<close> reports those load averages exactly, the
  \<open>MemTotal\<close> and free-memory figures in bytes and the specified busy
  fraction, and stores the new sample's sums.
\<close>

theorem run_linux_host_snapshot:
  assumes host: "is_linux h" "\<not> isInDocker h"
    and load: "fs_files h ''/proc/loadavg'' = Some (render_loadavg a b c nr nt lp)"
      "a < 1000" "b < 1000" "c < 1000"
    and mem: "fs_files h ''/proc/meminfo'' = Some (render_meminfo es)"
      "es \<noteq> []" "list_all wf_mi_entry es"
    and stat: "fs_files h ''/proc/stat'' = Some (stat_cpu_line cur @ rest)" "rest = [] \<or> hd rest = CHR 0x0A"
    and prev: "linux_state_of prev s" "grand_total prev \<noteq> grand_total cur"
  shows "run h s =
    (Inr \<lparr>report_type = ''system'',
          report_metrics = \<lparr>uptime = os_uptime h,
            totalmem = (case find (\<lambda>e. mi_label e = ''MemTotal'') es of
                          None \<Rightarrow> Fin (real (os_totalmem h))
                        | Some e \<Rightarrow> Fin (1024 * real (mi_kb e))),
            freemem = Fin (1024 * real (mem_free_kb es)),
            load1 = Fin (real a / 100), load5 = Fin (real b / 100), load15 = Fin (real c / 100),
            cpu = Fin (cpu_busy prev cur),
            cpu_count = length (os_cpus h)\<rparr>\<rparr>,
     s\<lparr>lastTotal := Fin (real (grand_total cur)), lastIdle := Fin (real (idle_total cur))\<rparr>)"
proof -
  have l: "getLoadAvg h = Inr (Fin (real a / 100), Fin (real b / 100), Fin (real c / 100))"
    using getLoadAvg_render [OF load(1,3,4)] load(2) by simp
  have t: "getTotalMemory h = Inr (case find (\<lambda>e. mi_label e = ''MemTotal'') es of
                          None \<Rightarrow> Fin (real (os_totalmem h))
                        | Some e \<Rightarrow> Fin (1024 * real (mi_kb e)))"
    using mem by (simp add: getTotalMemory_def meminfo_lines memtotal_scan_render mult.commute
      split: option.split)
  have f: "getMemoryUsage h = Inr (Fin (1024 * real (mem_free_kb es)))"
    using mem by (simp add: getMemoryUsage_def meminfo_lines foldl_mem_free_step)
  show ?thesis
    using l t f host linux_sample_result [OF prev(1) stat prev(2)]
    by (simp add: run_def status_def getSystemCPU_dispatch)
qed

section \<open>Examples\<close>

text \<open>A Linux host (not a container) whose \<open>/proc\<close> shows the sample \<open>b\<close>,
  load averages 0.10, 0.20, 0.30 and the memory example of the specification.\<close>

definition linux_host :: "cpu_breakdown \<Rightarrow> host" where
  "linux_host b = \<lparr>os_type = ''Linux'',
     os_cpus = replicate 2 \<lparr>t_user = 0, t_nice = 0, t_sys = 0, t_idle = 0, t_irq = 0\<rparr>,
     os_uptime = 3600, os_totalmem = 1048576, os_freemem = 0, os_loadavg = (0, 0, 0),
     fs_files = [''/proc/stat'' \<mapsto> stat_cpu_line b @ ''\<newline>cpu0 1 2 3\<newline>'',
                 ''/proc/loadavg'' \<mapsto> render_loadavg 10 20 30 1 200 1234,
                 ''/proc/meminfo'' \<mapsto> render_meminfo sample_meminfo],
     fs_dirs = Map.empty, fs_unreadable = {}, clock_ms = 0\<rparr>"

lemma linux_host_facts:
  "is_linux (linux_host b)" "\<not> isInDocker (linux_host b)" "readers_available (linux_host b)"
  "proc_stat_shows (linux_host b) b" "clock_ms (linux_host b) = 0"
  by (simp_all add: linux_host_def is_linux_def isInDocker_def readers_available_def
      fs_existsSync_def proc_stat_shows_def)

theorem run_reader_missing_throws_witness:
  "\<exists>e. run (stat_host sample_b0) init_state = (Inl e, init_state)"
  by (rule run_reader_missing_throws) (simp_all add: stat_host_def is_linux_def)

theorem run_generic_host_reports_witness:
  "run generic_host \<lparr>lastTotal = Fin 1000, lastIdle = Fin 700, last_used = Fin 0, last_sys = Fin 0\<rparr> =
    (Inr \<lparr>report_type = ''system'',
          report_metrics = \<lparr>uptime = 0, totalmem = Fin 0, freemem = Fin 0,
            load1 = Fin 0, load5 = Fin 0, load15 = Fin 0, cpu = Fin (2 / 5), cpu_count = 2\<rparr>\<rparr>,
     \<lparr>lastTotal = Fin 2000, lastIdle = Fin 1300, last_used = Fin 0, last_sys = Fin 0\<rparr>)"
proof -
  have "\<not> is_linux generic_host" "\<not> isInDocker generic_host"
    by (simp_all add: generic_host_def is_linux_def isInDocker_def fs_existsSync_def)
  from run_generic_host_reports [OF this, of "\<lparr>lastTotal = Fin 1000, lastIdle = Fin 700, last_used = Fin 0, last_sys = Fin 0\<rparr>"]
  show ?thesis by (simp add: generic_host_def cpus_total_def cpus_idle_def)
qed

theorem run_linux_host_snapshot_witness:
  "run (linux_host sample_busy) (state_of sample_b0) =
    (Inr \<lparr>report_type = ''system'',
          report_metrics = \<lparr>uptime = 3600, totalmem = Fin 1024000, freemem = Fin 358400,
            load1 = Fin (1 / 10), load5 = Fin (1 / 5), load15 = Fin (3 / 10), cpu = Fin 1,
            cpu_count = 2\<rparr>\<rparr>,
     state_of sample_busy)"
  using run_linux_host_snapshot [where h = "linux_host sample_busy" and a = 10 and b = 20 and c = 30
      and nr = 1 and nt = 200 and lp = 1234 and es = sample_meminfo and cur = sample_busy
      and rest = "''\<newline>cpu0 1 2 3\<newline>''" and prev = sample_b0 and s = "state_of sample_b0"]
    sample_meminfo_wf
  by (simp add: linux_host_def is_linux_def isInDocker_def fs_existsSync_def
      linux_state_of_def state_of_def sample_b0_def sample_busy_def grand_total_def idle_total_def
      sample_meminfo_def mem_free_kb_def mem_free_labels_def cpu_busy_def)

end
