(* ===== verification/Spec2Isabelle.thy ===== *)
theory Spec2Isabelle
  imports Snapshot
begin

text \<open>
  Verification of the system probe of the agentx monitoring agent,
  \<open>src/lib/orders/system.js\<close>, the only source file of the repository. The
  probe's \<open>exports.run(callback)\<close> assembles a snapshot of the host: uptime,
  total and free memory, the three load averages, a CPU busy fraction and
  the CPU count. The CPU fraction is the only stateful part: module-level
  variables keep the previous cumulative reading so that each call measures
  the interval since the last one.

  \<^bold>\<open>Parts of the program and their theories.\<close>
  \<^item> \<open>JS_Prelude\<close>: JavaScript numbers (\<open>jsnum\<close>: exact reals plus \<open>Infinity\<close>,
    \<open>-Infinity\<close>, \<open>NaN\<close>, with IEEE rules for \<open>+ - * /\<close>, \<open><=\<close>, \<open>===\<close>),
    exceptions as values (\<open>js_error + 'a\<close>, sequenced by \<open>js_bind\<close>) and
    array reads \<open>xs[i]\<close> with \<open>undefined\<close> (\<open>arr_get\<close>).
  \<^item> \<open>JS_Strings\<close>: the string builtins the code calls (\<open>trim\<close>, \<open>split\<close>,
    \<open>indexOf\<close>, \<open>parseInt(s, 10)\<close>) as executable functions, with the
    parse/print and split/join round trips the proofs rely on.
  \<^item> \<open>Host_Env\<close>: the environment of one call, a \<open>host\<close> record standing for
    Node's \<open>os\<close> module, a snapshot of the file system read by
    \<open>fs.existsSync\<close>, \<open>fs.readFileSync\<close>, \<open>fs.readdirSync\<close> (missing paths
    throw \<open>ENOENT\<close>; paths that exist but may not be read, \<open>fs_unreadable\<close>,
    pass \<open>existsSync\<close> and make \<open>readFileSync\<close> throw \<open>EACCES\<close>), and the
    clock of \<open>new Date().getTime()\<close>.
  \<^item> \<open>Env_Detect\<close>: \<open>isInDocker\<close> (lines 52--67), the scan of
    \<open>/proc/self/cgroup\<close> with its \<open>try/catch\<close>.
  \<^item> \<open>Docker_Quota\<close>: \<open>_getDockerCPUs\<close> (lines 73--100), the CPU share of
    the cgroup v1 quota and period files, with every early return.
  \<^item> \<open>Proc_CPU\<close>: \<open>_isPID\<close>, \<open>_getProcessCPU\<close> and \<open>getAllCPU\<close>
    (lines 102--151), the ticks of all processes listed in \<open>/proc\<close>.
  \<^item> \<open>CPU_Estimator\<close>: the state record \<open>cpu_state\<close> (the variables of
    lines 7--8 and 153--154), \<open>module_init\<close> (their values at load),
    \<open>calculateLinuxCPU\<close> (lines 21--49), \<open>calculateDockerCPU\<close>
    (lines 156--166), \<open>calculateCPU\<close> (lines 169--185) and the dispatch
    \<open>getSystemCPU\<close> (lines 187--203). Each takes the state and returns its
    result with the state after the call, also when an exception escapes.
  \<^item> \<open>Sys_Readers\<close>: \<open>getLoadAvg\<close> (lines 206--215, its regular expression
    as a leftmost search with a deterministic matcher per position, and
    \<open>Number()\<close> of the groups), \<open>getTotalMemory\<close> (lines 217--228) and
    \<open>getMemoryUsage\<close> (lines 230--242).
  \<^item> \<open>Snapshot\<close>: \<open>status\<close> (lines 244--257), which calls the readers in the
    order the object literal evaluates them and then \<open>getSystemCPU\<close>;
    \<open>exports.run\<close> (lines 259--264), where \<open>Inr r\<close> means that
    \<open>callback(null, r)\<close> was invoked and \<open>Inl e\<close> that \<open>e\<close> escaped before the
    callback; and \<open>collect\<close>, the agent calling \<open>run\<close> on successive hosts
    with the state threaded through (from the specification: the caller is
    not in the repository).
  \<^item> This theory: the properties that span the components, about
    successive collects, degenerate shares and the state at load.

  \<^bold>\<open>What is proved.\<close> Each component has its specification next to the
  code model: the kernel's text formats (\<open>stat_cpu_line\<close>, \<open>render_pstat\<close>,
  \<open>render_meminfo\<close>, \<open>render_loadavg\<close>, integer files) and abstract readings
  (\<open>cpu_breakdown\<close> with \<open>idle_total\<close>, \<open>grand_total\<close>, \<open>cpu_busy\<close>;
  \<open>pstat_ticks\<close>; \<open>mem_free_kb\<close>; \<open>docker_listed\<close>). The claims C1--C31 show
  that the code computes the specified figures from those formats
  (refinement, functional and equivalence lemmas, C1, C4, C8, C12,
  C15--C19, C24, C30), that the busy fractions stay in \<open>[0, 1]\<close> when
  counters advance, over any sequence of calls (C2, C3, C5, C31), that each
  branch writes only its own state (C6, and C29: outside containers
  \<open>last_sys\<close> is never observed), that two successive collects give a finite
  figure in every environment (C25--C27), which error paths throw or fall
  back (C9--C11, C13, C21, C22), and where the code departs from the
  specification or from its intent: no guard on a zero elapsed total (C7)
  or a zero share (C28), cgroup files that exist but cannot be read (C10),
  a command name with a blank (C14), a 1-minute load of 10 or more read
  modulo 10 (C20), and unguarded reads that make \<open>run\<close> throw (C22); the
  slip at line 154 is shown harmless (C29). Every claim with a hypothesis
  has a witness that applies it to a
  concrete host evaluated by \<open>simp\<close>.

  \<^bold>\<open>Abstractions.\<close> Finite numbers are exact reals: the probe only adds,
  subtracts and divides counters far below \<open>2^53\<close>, so IEEE rounding is
  left out, while the special values are kept exactly. Whitespace is the
  ASCII set of \<open>trim\<close> and \<open>\s\<close> (the probe reads kernel files). A file is
  read as text and \<open>Buffer.toString()\<close> is the identity. One \<open>host\<close> is the
  world during one call: the file system does not change during a call,
  and a process that exits between the listing of \<open>/proc\<close> and the read of
  its stat file is a listed name whose file is absent. No loop of the code
  can run forever: every loop is a structural recursion over a list, so no
  fuel is needed.

  \<^bold>\<open>Not modelled.\<close> Node's runtime and builtins beyond the calls above
  (they are the environment, not repository code); the scheduling and
  transport of reports, which the specification puts out of scope; and
  \<open>path.join\<close> in general: it is only applied to \<open>/proc\<close>, a listed name and
  \<open>stat\<close>, and \<open>proc_stat_path\<close> is its result on the names that pass
  \<open>_isPID\<close> (digits only, so nothing to normalise).
\<close>

section \<open>Successive collects\<close>

text \<open>
  C25. Two successive collects on a Linux host outside a container, with
  every file present and a total that advanced between the two readings of
  \<open>/proc/stat\<close>: the second callback is invoked with the finite busy fraction
  of the interval between the two samples, whatever the state before.
\<close>

theorem collect_twice_linux_finite:
  assumes h1: "is_linux h1" "\<not> isInDocker h1" "readers_available h1" "proc_stat_shows h1 b1"
    and h2: "is_linux h2" "\<not> isInDocker h2" "readers_available h2" "proc_stat_shows h2 b2"
    and adv: "grand_total b1 \<noteq> grand_total b2"
  shows "\<exists>r1 m2 s'. collect [h1, h2] s = ([r1, Inr m2], s') \<and>
           cpu (report_metrics m2) = Fin (cpu_busy b1 b2)"
proof (rule collect_two_cpu [OF h2(3)])
  obtain r0 where f1: "fs_files h1 ''/proc/stat'' = Some (stat_cpu_line b1 @ r0)"
      and r0: "r0 = [] \<or> hd r0 = CHR 0x0A"
    using h1(4) by (auto simp: proc_stat_shows_def)
  obtain r0' where f2: "fs_files h2 ''/proc/stat'' = Some (stat_cpu_line b2 @ r0')"
      and r0': "r0' = [] \<or> hd r0' = CHR 0x0A"
    using h2(4) by (auto simp: proc_stat_shows_def)
  have "linux_state_of b1 (snd (run h1 s))"
    using run_state [OF h1(3)] calculateLinuxCPU_stat [OF f1 r0] h1(1,2)
    by (simp add: getSystemCPU_dispatch linux_state_of_def)
  then show "fst (getSystemCPU h2 (snd (run h1 s))) = Inr (Fin (cpu_busy b1 b2))"
    using linux_sample_result [OF _ f2 r0' adv] h2(1,2) by (simp add: getSystemCPU_dispatch)
qed

text \<open>
  C26. Two successive collects on a generic host whose summed CPU time
  advanced: the second callback is invoked with the finite fraction
  \<open>1 - (idle delta) / (total delta)\<close> over \<open>os.cpus()\<close>.
\<close>

theorem collect_twice_generic_finite:
  assumes h1: "\<not> is_linux h1" "\<not> isInDocker h1"
    and h2: "\<not> is_linux h2" "\<not> isInDocker h2"
    and adv: "cpus_total (os_cpus h1) \<noteq> cpus_total (os_cpus h2)"
  shows "\<exists>r1 m2 s'. collect [h1, h2] s = ([r1, Inr m2], s') \<and>
           cpu (report_metrics m2) =
             Fin (1 - (real (cpus_idle (os_cpus h2)) - real (cpus_idle (os_cpus h1)))
                    / (real (cpus_total (os_cpus h2)) - real (cpus_total (os_cpus h1))))"
proof (rule collect_two_cpu)
  have "generic_state_of (os_cpus h1) (snd (run h1 s))"
    using run_state [of h1 s] h1 by (simp add: getSystemCPU_dispatch calculateCPU_eq generic_state_of_def)
  moreover have "real (cpus_total (os_cpus h2)) - real (cpus_total (os_cpus h1)) \<noteq> 0"
    using adv by simp
  ultimately show "fst (getSystemCPU h2 (snd (run h1 s))) =
      Inr (Fin (1 - (real (cpus_idle (os_cpus h2)) - real (cpus_idle (os_cpus h1)))
                    / (real (cpus_total (os_cpus h2)) - real (cpus_total (os_cpus h1)))))"
    using h2 by (simp add: getSystemCPU_dispatch calculateCPU_eq generic_state_of_def)
qed (use h2 in simp)

text \<open>
  C27. Two successive collects in a container at two different clock
  readings, with a non-zero CPU share on the second: the second callback is
  invoked with the finite figure \<open>(u2 - u1) * 10 / (t2 - t1) / share\<close>, the
  first call having stored its tick total and clock even if it threw.
\<close>

theorem collect_twice_container_finite:
  assumes h1: "isInDocker h1" "readers_available h1" "getAllCPU h1 = Inr (Fin u1)"
    and h2: "isInDocker h2" "readers_available h2" "getAllCPU h2 = Inr (Fin u2)"
    and adv: "clock_ms h1 \<noteq> clock_ms h2"
    and share: "getDockerCPUs h2 = Inr (Fin c)" "c \<noteq> 0"
  shows "\<exists>r1 m2 s'. collect [h1, h2] s = ([r1, Inr m2], s') \<and>
           cpu (report_metrics m2) =
             Fin ((u2 - u1) * 10 / (real_of_int (clock_ms h2) - real_of_int (clock_ms h1)) / c)"
proof (rule collect_two_cpu [OF h2(2)])
  have s1: "snd (run h1 s) = s\<lparr>last_used := Fin u1, last_sys := Fin (real_of_int (clock_ms h1))\<rparr>"
    using run_state [OF h1(2)] getSystemCPU_container_state [OF h1(1,3)] by simp
  have "real_of_int (clock_ms h1) \<noteq> real_of_int (clock_ms h2)" using adv by simp
  then show "fst (getSystemCPU h2 (snd (run h1 s))) =
      Inr (Fin ((u2 - u1) * 10 / (real_of_int (clock_ms h2) - real_of_int (clock_ms h1)) / c))"
    unfolding s1 getSystemCPU_dispatch
    using calculateDockerCPU_share [OF h2(3) _ _ _ share] h2(1) by simp
qed

text \<open>
  C31. Over any sequence of collects on a Linux host outside a container
  whose counters never go backwards and whose total advances at every call,
  starting from a state that holds the first sample, every call invokes its
  callback with a busy fraction in \<open>[0, 1]\<close>.
\<close>

theorem collect_linux_in_unit_interval:
  assumes "linux_state_of bfirst s"
    and "list_all2 (\<lambda>h b. \<not> isInDocker h \<and> is_linux h \<and> readers_available h \<and>
                          proc_stat_shows h b) hs bs"
    and "successively (\<lambda>p c. breakdown_le p c \<and> grand_total p < grand_total c) (bfirst # bs)"
  shows "list_all (\<lambda>r. \<exists>m x. r = Inr m \<and> cpu (report_metrics m) = Fin x \<and> 0 \<le> x \<and> x \<le> 1)
           (fst (collect hs s))"
  using assms
proof (induction hs arbitrary: bs bfirst s)
  case Nil
  then show ?case by simp
next
  case (Cons h hs)
  then obtain b bs' where bs: "bs = b # bs'" by (cases bs) auto
  with Cons.prems obtain x where
    x: "fst (getSystemCPU h s) = Inr (Fin x)" "0 \<le> x" "x \<le> 1"
      "linux_state_of b (snd (getSystemCPU h s))"
    using linux_host_step [of bfirst s h b] by auto
  have ra: "readers_available h" using Cons.prems(2) bs by simp
  obtain m where m: "fst (run h s) = Inr m" "cpu (report_metrics m) = Fin x"
    using run_cpu [OF ra x(1)] by blast
  have "list_all (\<lambda>r. \<exists>m x. r = Inr m \<and> cpu (report_metrics m) = Fin x \<and> 0 \<le> x \<and> x \<le> 1)
          (fst (collect hs (snd (run h s))))"
    using Cons.IH [of b "snd (run h s)" bs'] x(4) run_state [OF ra] Cons.prems(2,3) bs by simp
  with m x(2,3) show ?case
    by (auto simp: split_def Let_def)
qed

section \<open>Degenerate and initial samples\<close>

text \<open>
  C28. In a container whose CPU share resolves to 0 (a quota file holding
  0), every collect reports a CPU figure that is not a finite number
  (\<open>Infinity\<close>, \<open>-Infinity\<close> or \<open>NaN\<close>), whatever the state.
\<close>

theorem run_zero_quota_not_finite:
  assumes "isInDocker h" "readers_available h" "getAllCPU h = Inr u" "getDockerCPUs h = Inr (Fin 0)"
  shows "\<exists>m. fst (run h s) = Inr m \<and> \<not> js_finite (cpu (report_metrics m))"
proof -
  have "fst (getSystemCPU h s) = Inr (js_div (js_div (js_mul (js_sub u (last_used s)) (Fin 10))
      (js_sub (Fin (real_of_int (clock_ms h))) (last_sys s))) (Fin 0))"
    using assms by (simp add: getSystemCPU_def Let_def)
  from run_cpu [OF assms(2) this] show ?thesis
    using js_div_zero_not_finite by auto
qed

text \<open>
  C29. Outside containers the value of \<open>last_sys\<close> is never observed: over
  any sequence of collects on hosts that are not containers, two states
  that differ only in \<open>last_sys\<close> give the same reports and end in states
  that differ only in \<open>last_sys\<close>. So line 154, which tests the function
  \<open>isInDocker\<close> instead of its result and stores the load-time clock on every
  host, has no visible effect outside containers.
\<close>

theorem collect_ignores_last_sys:
  "list_all (\<lambda>h. \<not> isInDocker h) hs \<Longrightarrow>
   collect hs (s\<lparr>last_sys := t\<rparr>) = (fst (collect hs s), (snd (collect hs s))\<lparr>last_sys := t\<rparr>)"
proof (induction hs arbitrary: s)
  case (Cons h hs)
  then show ?case
    using run_last_sys_frame [where h = h and s = s and t = t] by (simp add: split_def Let_def)
qed simp

text \<open>
  C30. The first collect on a Linux host after the module is loaded reports
  the busy fraction since boot, \<open>1 - idle_total / grand_total\<close>, as the
  specification accepts.
\<close>

theorem first_linux_call_since_boot:
  assumes "module_init h0 = Inr s0"
    and "is_linux h" "\<not> isInDocker h" "readers_available h" "proc_stat_shows h b" "0 < grand_total b"
  shows "\<exists>m. fst (run h s0) = Inr m \<and>
           cpu (report_metrics m) = Fin (1 - real (idle_total b) / real (grand_total b))"
proof -
  obtain r0 where f: "fs_files h ''/proc/stat'' = Some (stat_cpu_line b @ r0)"
      and r0: "r0 = [] \<or> hd r0 = CHR 0x0A"
    using assms(5) by (auto simp: proc_stat_shows_def)
  have z: "grand_total zero_breakdown = 0" "idle_total zero_breakdown = 0"
    by (simp_all add: zero_breakdown_def idle_total_def grand_total_def)
  have "fst (getSystemCPU h s0) = Inr (Fin (1 - real (idle_total b) / real (grand_total b)))"
    using linux_sample_result [OF module_init_counters [OF assms(1)] f r0] assms(2,3,6) z
    by (simp add: getSystemCPU_dispatch cpu_busy_def)
  from run_cpu [OF assms(4) this] show ?thesis by blast
qed

section \<open>Examples\<close>

text \<open>A container with the quota of \<open>docker_host\<close> and the readers' files; an
  earlier reading of it (only process 42 alive, at clock 0); and the same
  container with a quota of 0.\<close>

definition docker_full_host :: host where
  "docker_full_host = docker_host\<lparr>fs_files := (fs_files docker_host)(
       ''/proc/loadavg'' \<mapsto> render_loadavg 10 20 30 1 200 1234,
       ''/proc/meminfo'' \<mapsto> render_meminfo sample_meminfo)\<rparr>"

definition docker_earlier_host :: host where
  "docker_earlier_host = docker_full_host\<lparr>fs_dirs := [''/proc'' \<mapsto> [''42'']], clock_ms := 0\<rparr>"

definition docker_zero_quota_host :: host where
  "docker_zero_quota_host = docker_full_host\<lparr>fs_files := (fs_files docker_full_host)(cfs_quota_path \<mapsto> ''0\<newline>'')\<rparr>"

lemma docker_full_host_facts:
  "isInDocker docker_full_host" "readers_available docker_full_host"
  "getAllCPU docker_full_host = Inr (Fin 260)"
  "getDockerCPUs docker_full_host = Inr (Fin (3 / 2))"
  by (simp_all add: docker_full_host_def docker_host_def isInDocker_def readers_available_def
      getAllCPU_def getProcessCPU_def isPID_def proc_stat_path_def getDockerCPUs_def
      cfs_quota_path_def cfs_period_path_def host_eval_simps)

lemma docker_earlier_host_facts:
  "isInDocker docker_earlier_host" "readers_available docker_earlier_host"
  "getAllCPU docker_earlier_host = Inr (Fin 45)"
  by (simp_all add: docker_earlier_host_def docker_full_host_def docker_host_def isInDocker_def
      readers_available_def getAllCPU_def getProcessCPU_def isPID_def proc_stat_path_def
      cfs_quota_path_def cfs_period_path_def host_eval_simps)

theorem collect_twice_linux_finite_witness:
  "\<exists>r1 m2 s'. collect [linux_host sample_b0, linux_host sample_idle] init_state = ([r1, Inr m2], s') \<and>
     cpu (report_metrics m2) = Fin 0"
  using collect_twice_linux_finite [of "linux_host sample_b0" sample_b0 "linux_host sample_idle" sample_idle init_state]
  by (simp add: linux_host_facts cpu_busy_def sample_b0_def sample_idle_def grand_total_def idle_total_def)

theorem collect_twice_generic_finite_witness:
  "\<exists>r1 m2 s'. collect [generic_host\<lparr>os_cpus := generic_prev\<rparr>, generic_host] init_state =
     ([r1, Inr m2], s') \<and> cpu (report_metrics m2) = Fin (2 / 5)"
  using collect_twice_generic_finite [of "generic_host\<lparr>os_cpus := generic_prev\<rparr>" generic_host init_state]
  by (simp add: generic_host_def generic_prev_def is_linux_def isInDocker_def fs_existsSync_def
      cpus_total_def cpus_idle_def)

theorem collect_twice_container_finite_witness:
  "\<exists>r1 m2 s'. collect [docker_earlier_host, docker_full_host] init_state = ([r1, Inr m2], s') \<and>
     cpu (report_metrics m2) = Fin (43 / 30)"
  using collect_twice_container_finite [of docker_earlier_host 45 docker_full_host 260 "3 / 2" init_state]
    docker_full_host_facts docker_earlier_host_facts
  by (simp add: docker_earlier_host_def docker_full_host_def docker_host_def)

theorem run_zero_quota_not_finite_witness:
  "\<exists>m. fst (run docker_zero_quota_host init_state) = Inr m \<and> \<not> js_finite (cpu (report_metrics m))"
proof (rule run_zero_quota_not_finite)
  show "isInDocker docker_zero_quota_host" "readers_available docker_zero_quota_host"
    "getAllCPU docker_zero_quota_host = Inr (Fin 260)"
    "getDockerCPUs docker_zero_quota_host = Inr (Fin 0)"
    by (simp_all add: docker_zero_quota_host_def docker_full_host_def docker_host_def isInDocker_def
        readers_available_def getAllCPU_def getProcessCPU_def isPID_def proc_stat_path_def
        getDockerCPUs_def cfs_quota_path_def cfs_period_path_def host_eval_simps)
qed

theorem collect_ignores_last_sys_witness:
  "fst (collect [generic_host\<lparr>os_cpus := generic_prev\<rparr>, generic_host]
          \<lparr>lastTotal = Fin 0, lastIdle = Fin 0, last_used = Fin 0, last_sys = Fin 1000\<rparr>) =
   fst (collect [generic_host\<lparr>os_cpus := generic_prev\<rparr>, generic_host] init_state)"
proof -
  have nd: "\<not> isInDocker (generic_host\<lparr>os_cpus := generic_prev\<rparr>)" "\<not> isInDocker generic_host"
    by (simp_all add: generic_host_def isInDocker_def fs_existsSync_def fs_readFileSync_def)
  from collect_ignores_last_sys [where hs = "[generic_host\<lparr>os_cpus := generic_prev\<rparr>, generic_host]"
      and s = init_state and t = "Fin 1000"]
  show ?thesis using nd by (simp add: init_state_def)
qed

theorem first_linux_call_since_boot_witness:
  "\<exists>m. fst (run (linux_host sample_b0) init_state) = Inr m \<and>
     cpu (report_metrics m) = Fin (1 - 1123249 / 1228864)"
proof -
  have i: "module_init (linux_host sample_b0) = Inr init_state"
    by (simp add: module_init_def linux_host_facts init_state_def)
  show ?thesis
    using first_linux_call_since_boot [OF i, of "linux_host sample_b0" sample_b0]
    by (simp add: linux_host_facts sample_b0_def grand_total_def idle_total_def)
qed

theorem collect_linux_in_unit_interval_witness:
  "list_all (\<lambda>r. \<exists>m x. r = Inr m \<and> cpu (report_metrics m) = Fin x \<and> 0 \<le> x \<and> x \<le> 1)
     (fst (collect [linux_host sample_b0, linux_host sample_busy, linux_host (sample_busy\<lparr>b_idle := 1118073\<rparr>)] init_state))"
proof (rule collect_linux_in_unit_interval [where bfirst = zero_breakdown
    and bs = "[sample_b0, sample_busy, sample_busy\<lparr>b_idle := 1118073\<rparr>]"])
  show "linux_state_of zero_breakdown init_state"
    by (simp add: linux_state_of_def init_state_def zero_breakdown_def grand_total_def idle_total_def)
  show "list_all2 (\<lambda>h b. \<not> isInDocker h \<and> is_linux h \<and> readers_available h \<and> proc_stat_shows h b)
      [linux_host sample_b0, linux_host sample_busy, linux_host (sample_busy\<lparr>b_idle := 1118073\<rparr>)]
      [sample_b0, sample_busy, sample_busy\<lparr>b_idle := 1118073\<rparr>]"
    by (simp add: linux_host_facts)
  show "successively (\<lambda>p c. breakdown_le p c \<and> grand_total p < grand_total c)
      [zero_breakdown, sample_b0, sample_busy, sample_busy\<lparr>b_idle := 1118073\<rparr>]"
    by (simp add: breakdown_le_iff grand_total_def zero_breakdown_def sample_b0_def sample_busy_def)
qed

end
